theory Spec2Isabelle
  imports Main "HOL-Library.Sublist"
begin

section \<open>JavaScript values\<close>

text \<open>
  Payloads are typed \<^verbatim>\<open>any\<close> in the source. They are modelled as plain data: the
  values a JSON API carries, plus \<^verbatim>\<open>undefined\<close> for an absent argument. Numbers are
  integers (status codes, attempt counters, delays in milliseconds).
\<close>

datatype jsval =
    JUndefined
  | JNull
  | JBool bool
  | JNum int
  | JStr string
  | JArr "jsval list"
  | JObj "(string \<times> jsval) list"

text \<open>The truthiness test behind \<^verbatim>\<open>if (x)\<close> and \<^verbatim>\<open>x ? a : b\<close>.\<close>

fun truthy :: "jsval \<Rightarrow> bool" where
  "truthy JUndefined = False"
| "truthy JNull = False"
| "truthy (JBool b) = b"
| "truthy (JNum n) = (n \<noteq> 0)"
| "truthy (JStr s) = (s \<noteq> [])"
| "truthy (JArr xs) = True"
| "truthy (JObj kvs) = True"

text \<open>
  Not every value the code handles is plain data. The request handle that a transport
  failure carries is, under Node, an object whose graph has a cycle (the request and its
  socket refer to each other). A value of type \<^verbatim>\<open>any\<close> is therefore plain data or such
  a circular object; a circular object is truthy.
\<close>

datatype jsobj = Plain jsval | Circular

fun truthy_any :: "jsobj \<Rightarrow> bool" where
  "truthy_any (Plain v) = truthy v"
| "truthy_any Circular = True"

text \<open>
  What a template literal prints for an integer number: its decimal digits, with a
  leading minus sign when negative.
\<close>

fun string_of_nat :: "nat \<Rightarrow> string" where
  "string_of_nat n =
     (if n < 10 then [''0123456789'' ! n]
      else string_of_nat (n div 10) @ [''0123456789'' ! (n mod 10)])"

declare string_of_nat.simps [simp del]

definition Number_toString :: "int \<Rightarrow> string" where
  "Number_toString i =
     (if i < 0 then CHR ''-'' # string_of_nat (nat (- i)) else string_of_nat (nat i))"

text \<open>
  The platform services the code calls and the repository does not define:
  \<^verbatim>\<open>JSON.stringify\<close> on plain data as it appears inside a template literal (total
  there, \<^verbatim>\<open>undefined\<close> printing as the text "undefined"), the clock behind
  \<^verbatim>\<open>new Date().toISOString()\<close>, read when the console holds the given lines, and
  \<^verbatim>\<open>String.prototype.toUpperCase\<close>.
\<close>

record platform =
  JSON_stringify :: "jsval \<Rightarrow> string"
  Date_toISOString :: "string list \<Rightarrow> string"
  toUpperCase :: "string \<Rightarrow> string"

section \<open>Configuration (test.config.ts)\<close>

text \<open>The fields of \<^verbatim>\<open>testConfig\<close> the client and the logger read; they come from the
  process environment.\<close>

record testConfig =
  apiBaseUrl :: string
  testEnv :: string
  apiTimeout :: int
  apiRetryAttempts :: int

section \<open>Transport data (the HTTP library's request, response and failure objects)\<close>

text \<open>
  Header names stand for their normalised form: the transport compares header names
  without regard to letter case.
\<close>

type_synonym headers_map = "string \<rightharpoonup> string"

text \<open>The per-call options a verb method accepts (\<^verbatim>\<open>config?: AxiosRequestConfig\<close>).\<close>

record AxiosRequestConfig =
  config_headers :: headers_map
  config_baseURL :: "string option"
  config_timeout :: "int option"
  config_data :: jsval

text \<open>The request the transport dispatches: the instance defaults merged with the
  call's own settings.\<close>

record request =
  request_method :: string
  request_url :: string
  request_baseURL :: string
  request_timeout :: int
  request_headers :: headers_map
  request_data :: jsval

text \<open>\<^verbatim>\<open>AxiosResponse\<close>: what a successful transport call resolves with.\<close>

record AxiosResponse =
  response_data :: jsval
  response_status :: int
  response_statusText :: string
  response_headers :: "(string \<times> string) list"
  response_config :: request
  response_request :: jsobj

text \<open>
  A thrown error object. \<^verbatim>\<open>new Error(m)\<close> carries a name and a message only; a
  transport failure may also carry the response the server sent, the request handle of a
  request that was transmitted (\<^verbatim>\<open>undefined\<close> when nothing was sent), the request's
  configuration, and a \<^verbatim>\<open>toJSON\<close> method, given by the plain data it returns.
\<close>

record js_error =
  error_name :: string
  error_message :: string
  error_response :: "AxiosResponse option"
  error_request :: jsobj
  error_config :: "request option"
  error_toJSON :: "jsval option"

definition Error :: "string \<Rightarrow> js_error" where
  "Error m = \<lparr>error_name = ''Error'', error_message = m, error_response = None,
              error_request = Plain JUndefined, error_config = None, error_toJSON = None\<rparr>"

definition TypeError :: "string \<Rightarrow> js_error" where
  "TypeError m = \<lparr>error_name = ''TypeError'', error_message = m, error_response = None,
              error_request = Plain JUndefined, error_config = None, error_toJSON = None\<rparr>"

text \<open>
  \<^verbatim>\<open>JSON.stringify\<close> on any value: on a circular object it throws a
  \<^verbatim>\<open>TypeError\<close> (whose message begins as given here).
\<close>

definition stringify :: "platform \<Rightarrow> jsobj \<Rightarrow> js_error + string" where
  "stringify pf v =
     (case v of
        Plain d \<Rightarrow> Inr (JSON_stringify pf d)
      | Circular \<Rightarrow> Inl (TypeError ''Converting circular structure to JSON''))"

text \<open>The property read \<^verbatim>\<open>e[k]\<close> on an error object.\<close>

definition response_properties :: "AxiosResponse \<Rightarrow> (string \<times> jsval) list" where
  "response_properties r =
     [(''data'', response_data r),
      (''status'', JNum (response_status r)),
      (''statusText'', JStr (response_statusText r)),
      (''headers'', JObj (map (\<lambda>(k, v). (k, JStr v)) (response_headers r)))]"

definition error_property :: "js_error \<Rightarrow> string \<Rightarrow> jsobj" where
  "error_property e k =
     (if k = ''message'' then Plain (JStr (error_message e))
      else if k = ''name'' then Plain (JStr (error_name e))
      else if k = ''response''
        then (case error_response e of None \<Rightarrow> Plain JUndefined
              | Some r \<Rightarrow> Plain (JObj (response_properties r)))
      else if k = ''request'' then error_request e
      else Plain JUndefined)"

text \<open>
  An error object as the data argument of a logger call, that is, as
  \<^verbatim>\<open>JSON.stringify\<close> sees it: what its \<^verbatim>\<open>toJSON\<close> returns if it has one, else its
  own enumerable properties. The name and the message of an error are not enumerable, so
  \<^verbatim>\<open>new Error(m)\<close> is the empty object; a circular request handle among the properties
  makes the whole object circular.
\<close>

definition error_data :: "js_error \<Rightarrow> jsobj" where
  "error_data e =
     (case error_toJSON e of
        Some j \<Rightarrow> Plain j
      | None \<Rightarrow>
          (case error_request e of
             Circular \<Rightarrow> Circular
           | Plain rq \<Rightarrow>
               (case error_response e of
                  None \<Rightarrow> Plain (JObj (if rq = JUndefined then [] else [(''request'', rq)]))
                | Some r \<Rightarrow>
                    (case response_request r of
                       Circular \<Rightarrow> Circular
                     | Plain rrq \<Rightarrow>
                         Plain (JObj ([(''response'',
                                   JObj (response_properties r @ [(''request'', rrq)]))]
                                 @ (if rq = JUndefined then [] else [(''request'', rq)])))))))"

section \<open>The world a call runs in\<close>

text \<open>
  The console lines printed so far, the timer delays waited so far (in order), and the
  state of whatever else the call touches: the remote servers for a transport call, the
  operation's own state for a retried operation.
\<close>

record 's world =
  console :: "string list"
  waited :: "int list"
  ext :: 's

section \<open>The logger (utils/logger.ts)\<close>

datatype LogLevel = DEBUG | INFO | WARN | ERROR

fun LogLevel_value :: "LogLevel \<Rightarrow> nat" where
  "LogLevel_value DEBUG = 0"
| "LogLevel_value INFO = 1"
| "LogLevel_value WARN = 2"
| "LogLevel_value ERROR = 3"

record Logger =
  level :: LogLevel

text \<open>The methods take a message and a data argument of type \<^verbatim>\<open>any\<close>
  (\<^verbatim>\<open>undefined\<close> when omitted). \<^verbatim>\<open>formatMessage\<close> serialises truthy data, so it throws
  where \<^verbatim>\<open>JSON.stringify\<close> does; a method returns the error thrown, if any, and the
  console.\<close>

definition formatMessage ::
  "platform \<Rightarrow> string \<Rightarrow> string \<Rightarrow> jsobj \<Rightarrow> string list \<Rightarrow> js_error + string" where
  "formatMessage pf levelName message data out =
     (let timestamp = Date_toISOString pf out
      in case (if truthy_any data
               then (case stringify pf data of
                       Inl thrown \<Rightarrow> Inl thrown
                     | Inr text \<Rightarrow> Inr ('' | Data: '' @ text))
               else Inr []) of
           Inl thrown \<Rightarrow> Inl thrown
         | Inr formattedData \<Rightarrow>
             Inr (''['' @ timestamp @ ''] ['' @ levelName @ ''] '' @ message @ formattedData))"

definition Logger_log ::
  "platform \<Rightarrow> Logger \<Rightarrow> LogLevel \<Rightarrow> string \<Rightarrow> string \<Rightarrow> jsobj \<Rightarrow> string list \<Rightarrow>
   js_error option \<times> string list" where
  "Logger_log pf this lvl levelName message data out =
     (if LogLevel_value lvl \<ge> LogLevel_value (level this)
      then (case formatMessage pf levelName message data out of
              Inl thrown \<Rightarrow> (Some thrown, out)
            | Inr formattedMessage \<Rightarrow> (None, out @ [formattedMessage]))
      else (None, out))"

definition Logger_debug ::
  "platform \<Rightarrow> Logger \<Rightarrow> string \<Rightarrow> jsobj \<Rightarrow> string list \<Rightarrow> js_error option \<times> string list"
  where
  "Logger_debug pf this message data = Logger_log pf this DEBUG ''DEBUG'' message data"

definition Logger_info ::
  "platform \<Rightarrow> Logger \<Rightarrow> string \<Rightarrow> jsobj \<Rightarrow> string list \<Rightarrow> js_error option \<times> string list"
  where
  "Logger_info pf this message data = Logger_log pf this INFO ''INFO'' message data"

definition Logger_warn ::
  "platform \<Rightarrow> Logger \<Rightarrow> string \<Rightarrow> jsobj \<Rightarrow> string list \<Rightarrow> js_error option \<times> string list"
  where
  "Logger_warn pf this message data = Logger_log pf this WARN ''WARN'' message data"

definition Logger_error ::
  "platform \<Rightarrow> Logger \<Rightarrow> string \<Rightarrow> jsobj \<Rightarrow> string list \<Rightarrow> js_error option \<times> string list"
  where
  "Logger_error pf this message data = Logger_log pf this ERROR ''ERROR'' message data"

text \<open>
  The logging capability as the client sees it: three methods that take a message and a
  data argument, print to the console, and either return (\<open>None\<close>) or throw
  (\<open>Some e\<close>).
\<close>

record logging =
  log_debug :: "string \<Rightarrow> jsobj \<Rightarrow> string list \<Rightarrow> js_error option \<times> string list"
  log_warn :: "string \<Rightarrow> jsobj \<Rightarrow> string list \<Rightarrow> js_error option \<times> string list"
  log_error :: "string \<Rightarrow> jsobj \<Rightarrow> string list \<Rightarrow> js_error option \<times> string list"

text \<open>The exported \<^verbatim>\<open>logger\<close>: a \<^verbatim>\<open>Logger\<close> at level DEBUG in the development
  environment and INFO otherwise.\<close>

definition logger :: "platform \<Rightarrow> testConfig \<Rightarrow> logging" where
  "logger pf tc =
     (let this = \<lparr>level = (if testEnv tc = ''development'' then DEBUG else INFO)\<rparr>
      in \<lparr>log_debug = Logger_debug pf this,
          log_warn = Logger_warn pf this,
          log_error = Logger_error pf this\<rparr>)"

text \<open>A logger call inside the client: it acts on the console of the world.\<close>

definition call_logger ::
  "(string \<Rightarrow> jsobj \<Rightarrow> string list \<Rightarrow> js_error option \<times> string list) \<Rightarrow>
   string \<Rightarrow> jsobj \<Rightarrow> 's world \<Rightarrow> js_error option \<times> 's world" where
  "call_logger f message data w =
     (case f message data (console w) of (thrown, out) \<Rightarrow> (thrown, w\<lparr>console := out\<rparr>))"

section \<open>The HTTP library as the client uses it\<close>

text \<open>
  An instance of the HTTP library is given by its defaults: the base address, the
  timeout, the \<^verbatim>\<open>headers.common\<close> table and the instance's own header table.
\<close>

record AxiosDefaults =
  defaults_baseURL :: string
  defaults_timeout :: int
  defaults_headers_common :: headers_map
  defaults_headers :: headers_map

text \<open>\<^verbatim>\<open>axios.create\<close>: the library's stock \<^verbatim>\<open>headers.common\<close> and the given settings.\<close>

definition axios_create :: "string \<Rightarrow> int \<Rightarrow> headers_map \<Rightarrow> AxiosDefaults" where
  "axios_create b t hs =
     \<lparr>defaults_baseURL = b, defaults_timeout = t,
      defaults_headers_common = [''Accept'' \<mapsto> ''application/json, text/plain, */*''],
      defaults_headers = hs\<rparr>"

text \<open>
  Building the request of one call: the call's own settings win over the instance
  defaults; for headers, \<^verbatim>\<open>headers.common\<close> is overridden by the instance's header
  table, and that by the headers of the call.
\<close>

definition mergeConfig ::
  "AxiosDefaults \<Rightarrow> string \<Rightarrow> string \<Rightarrow> jsval \<Rightarrow> AxiosRequestConfig option \<Rightarrow> request" where
  "mergeConfig d method url data config =
     \<lparr>request_method = method,
      request_url = url,
      request_baseURL =
        (case Option.bind config config_baseURL of None \<Rightarrow> defaults_baseURL d | Some b \<Rightarrow> b),
      request_timeout =
        (case Option.bind config config_timeout of None \<Rightarrow> defaults_timeout d | Some t \<Rightarrow> t),
      request_headers =
        defaults_headers_common d ++ defaults_headers d
          ++ (case config of None \<Rightarrow> Map.empty | Some c \<Rightarrow> config_headers c),
      request_data = data\<rparr>"

text \<open>
  A promise that has settled, together with the world it settled in: \<open>Inr\<close> a value it
  resolved with, \<open>Inl\<close> what it rejected with. \<^verbatim>\<open>p.then(f, r)\<close> runs \<open>f\<close> on a resolved
  value and \<open>r\<close> on a rejection; a handler that throws rejects the result.
\<close>

definition promise_then ::
  "('e + 'a) \<times> 'w \<Rightarrow> ('a \<Rightarrow> 'w \<Rightarrow> ('e + 'b) \<times> 'w) \<Rightarrow> ('e \<Rightarrow> 'w \<Rightarrow> ('e + 'b) \<times> 'w) \<Rightarrow>
   ('e + 'b) \<times> 'w" where
  "promise_then p onFulfilled onRejected =
     (case p of (Inr v, w) \<Rightarrow> onFulfilled v w | (Inl e, w) \<Rightarrow> onRejected e w)"

text \<open>The transport proper: it sends one request and resolves with a response or
  rejects with a failure, acting on the state of the remote side.\<close>

type_synonym 's transport = "request \<Rightarrow> 's \<Rightarrow> (js_error + AxiosResponse) \<times> 's"

definition dispatchRequest ::
  "'s transport \<Rightarrow> request \<Rightarrow> 's world \<Rightarrow> (js_error + AxiosResponse) \<times> 's world" where
  "dispatchRequest transport config w =
     (case transport config (ext w) of (r, s) \<Rightarrow> (r, w\<lparr>ext := s\<rparr>))"

section \<open>The client (api/api-client.ts)\<close>

record ApiResponse =
  data :: jsval
  status :: int
  statusText :: string
  headers :: "(string \<times> string) list"

record ApiClient =
  client :: AxiosDefaults
  baseURL :: string

subsection \<open>setupInterceptors\<close>

definition request_fulfilled ::
  "logging \<Rightarrow> platform \<Rightarrow> request \<Rightarrow> 's world \<Rightarrow> (js_error + request) \<times> 's world" where
  "request_fulfilled lg pf config w =
     (case call_logger (log_debug lg)
             (''API Request: '' @ toUpperCase pf (request_method config) @ '' ''
                @ request_url config) (Plain JUndefined) w of
        (Some thrown, w1) \<Rightarrow> (Inl thrown, w1)
      | (None, w1) \<Rightarrow>
          if truthy (request_data config)
          then (case call_logger (log_debug lg)
                       (''Request Data: '' @ JSON_stringify pf (request_data config))
                       (Plain JUndefined) w1 of
                  (Some thrown, w2) \<Rightarrow> (Inl thrown, w2)
                | (None, w2) \<Rightarrow> (Inr config, w2))
          else (Inr config, w1))"

definition request_rejected ::
  "logging \<Rightarrow> js_error \<Rightarrow> 's world \<Rightarrow> (js_error + request) \<times> 's world" where
  "request_rejected lg error w =
     (case call_logger (log_error lg) ''Request Error:'' (error_data error) w of
        (Some thrown, w1) \<Rightarrow> (Inl thrown, w1)
      | (None, w1) \<Rightarrow> (Inl error, w1))"

definition response_fulfilled ::
  "logging \<Rightarrow> platform \<Rightarrow> AxiosResponse \<Rightarrow> 's world \<Rightarrow> (js_error + AxiosResponse) \<times> 's world"
  where
  "response_fulfilled lg pf response w =
     (case call_logger (log_debug lg)
             (''API Response: '' @ Number_toString (response_status response) @ '' ''
                @ request_url (response_config response)) (Plain JUndefined) w of
        (Some thrown, w1) \<Rightarrow> (Inl thrown, w1)
      | (None, w1) \<Rightarrow>
          (case call_logger (log_debug lg)
                  (''Response Data: '' @ JSON_stringify pf (response_data response))
                  (Plain JUndefined) w1 of
             (Some thrown, w2) \<Rightarrow> (Inl thrown, w2)
           | (None, w2) \<Rightarrow> (Inr response, w2)))"

definition response_rejected ::
  "logging \<Rightarrow> js_error \<Rightarrow> 's world \<Rightarrow> (js_error + AxiosResponse) \<times> 's world" where
  "response_rejected lg error w =
     (case call_logger (log_error lg) ''Response Error:''
             (Plain (JObj
               [(''status'', case error_response error of None \<Rightarrow> JUndefined
                             | Some r \<Rightarrow> JNum (response_status r)),
                (''statusText'', case error_response error of None \<Rightarrow> JUndefined
                                 | Some r \<Rightarrow> JStr (response_statusText r)),
                (''data'', case error_response error of None \<Rightarrow> JUndefined
                           | Some r \<Rightarrow> response_data r),
                (''url'', case error_config error of None \<Rightarrow> JUndefined
                          | Some c \<Rightarrow> JStr (request_url c))])) w of
        (Some thrown, w1) \<Rightarrow> (Inl thrown, w1)
      | (None, w1) \<Rightarrow> (Inl error, w1))"

text \<open>
  One call on the instance the constructor set up: the request configuration passes
  the request interceptor, the transport, and the response interceptor, in this order.
  A rejection skips the dispatch and reaches the next rejection handler.
\<close>

definition axios_request ::
  "logging \<Rightarrow> platform \<Rightarrow> 's transport \<Rightarrow> request \<Rightarrow> 's world \<Rightarrow>
   (js_error + AxiosResponse) \<times> 's world" where
  "axios_request lg pf transport config w =
     promise_then
       (promise_then
          (promise_then (Inr config, w) (request_fulfilled lg pf) (request_rejected lg))
          (dispatchRequest transport)
          (\<lambda>error w'. (Inl error, w')))
       (response_fulfilled lg pf)
       (response_rejected lg)"

text \<open>The library's verb methods. \<^verbatim>\<open>get\<close> and \<^verbatim>\<open>delete\<close> take their body, if any, from
  the call's options; the other three take it as an argument.\<close>

definition config_data_of :: "AxiosRequestConfig option \<Rightarrow> jsval" where
  "config_data_of config = (case config of None \<Rightarrow> JUndefined | Some c \<Rightarrow> config_data c)"

definition axios_get ::
  "logging \<Rightarrow> platform \<Rightarrow> 's transport \<Rightarrow> AxiosDefaults \<Rightarrow> string \<Rightarrow>
   AxiosRequestConfig option \<Rightarrow> 's world \<Rightarrow> (js_error + AxiosResponse) \<times> 's world" where
  "axios_get lg pf transport d url config =
     axios_request lg pf transport (mergeConfig d ''get'' url (config_data_of config) config)"

definition axios_delete ::
  "logging \<Rightarrow> platform \<Rightarrow> 's transport \<Rightarrow> AxiosDefaults \<Rightarrow> string \<Rightarrow>
   AxiosRequestConfig option \<Rightarrow> 's world \<Rightarrow> (js_error + AxiosResponse) \<times> 's world" where
  "axios_delete lg pf transport d url config =
     axios_request lg pf transport (mergeConfig d ''delete'' url (config_data_of config) config)"

definition axios_post ::
  "logging \<Rightarrow> platform \<Rightarrow> 's transport \<Rightarrow> AxiosDefaults \<Rightarrow> string \<Rightarrow> jsval \<Rightarrow>
   AxiosRequestConfig option \<Rightarrow> 's world \<Rightarrow> (js_error + AxiosResponse) \<times> 's world" where
  "axios_post lg pf transport d url body config =
     axios_request lg pf transport (mergeConfig d ''post'' url body config)"

definition axios_put ::
  "logging \<Rightarrow> platform \<Rightarrow> 's transport \<Rightarrow> AxiosDefaults \<Rightarrow> string \<Rightarrow> jsval \<Rightarrow>
   AxiosRequestConfig option \<Rightarrow> 's world \<Rightarrow> (js_error + AxiosResponse) \<times> 's world" where
  "axios_put lg pf transport d url body config =
     axios_request lg pf transport (mergeConfig d ''put'' url body config)"

definition axios_patch ::
  "logging \<Rightarrow> platform \<Rightarrow> 's transport \<Rightarrow> AxiosDefaults \<Rightarrow> string \<Rightarrow> jsval \<Rightarrow>
   AxiosRequestConfig option \<Rightarrow> 's world \<Rightarrow> (js_error + AxiosResponse) \<times> 's world" where
  "axios_patch lg pf transport d url body config =
     axios_request lg pf transport (mergeConfig d ''patch'' url body config)"

subsection \<open>Constructor and utility methods\<close>

definition constructor :: "testConfig \<Rightarrow> string option \<Rightarrow> ApiClient" where
  "constructor tc baseURL_arg =
     (let b = (case baseURL_arg of None \<Rightarrow> apiBaseUrl tc | Some u \<Rightarrow> u)
      in \<lparr>client =
            axios_create b (apiTimeout tc)
              [''Content-Type'' \<mapsto> ''application/json'', ''Accept'' \<mapsto> ''application/json''],
          baseURL = b\<rparr>)"

definition setAuthToken :: "string \<Rightarrow> ApiClient \<Rightarrow> ApiClient" where
  "setAuthToken token this =
     this\<lparr>client := (client this)\<lparr>defaults_headers_common :=
       (defaults_headers_common (client this))(''Authorization'' \<mapsto> ''Bearer '' @ token)\<rparr>\<rparr>"

definition removeAuthToken :: "ApiClient \<Rightarrow> ApiClient" where
  "removeAuthToken this =
     this\<lparr>client := (client this)\<lparr>defaults_headers_common :=
       (defaults_headers_common (client this))(''Authorization'' := None)\<rparr>\<rparr>"

definition setBaseURL :: "string \<Rightarrow> ApiClient \<Rightarrow> ApiClient" where
  "setBaseURL u this =
     this\<lparr>baseURL := u, client := (client this)\<lparr>defaults_baseURL := u\<rparr>\<rparr>"

definition getBaseURL :: "ApiClient \<Rightarrow> string" where
  "getBaseURL this = baseURL this"

subsection \<open>Helper methods\<close>

definition formatResponse :: "AxiosResponse \<Rightarrow> ApiResponse" where
  "formatResponse response =
     \<lparr>data = response_data response,
      status = response_status response,
      statusText = response_statusText response,
      headers = response_headers response\<rparr>"

text \<open>\<^verbatim>\<open>handleError\<close> returns the error to throw (\<open>Inr\<close>), unless a logger call inside it
  throws first (\<open>Inl\<close>).\<close>

definition handleError ::
  "logging \<Rightarrow> platform \<Rightarrow> js_error \<Rightarrow> 's world \<Rightarrow> (js_error + js_error) \<times> 's world" where
  "handleError lg pf error w =
     (case error_response error of
        Some r \<Rightarrow>
          (let message = ''API Error: '' @ Number_toString (response_status r) @ '' ''
                           @ response_statusText r
           in case call_logger (log_error lg) message
                     (Plain (JObj [(''status'', JNum (response_status r)),
                                   (''statusText'', JStr (response_statusText r)),
                                   (''data'', response_data r)])) w of
                (Some thrown, w1) \<Rightarrow> (Inl thrown, w1)
              | (None, w1) \<Rightarrow>
                  (Inr (Error (message @ '' - '' @ JSON_stringify pf (response_data r))), w1))
      | None \<Rightarrow>
          if truthy_any (error_request error)
          then (let message = ''Network Error: No response received''
                in case call_logger (log_error lg) message (error_request error) w of
                     (Some thrown, w1) \<Rightarrow> (Inl thrown, w1)
                   | (None, w1) \<Rightarrow> (Inr (Error message), w1))
          else (let message = ''Request Error: '' @ error_message error
                in case call_logger (log_error lg) message (error_data error) w of
                     (Some thrown, w1) \<Rightarrow> (Inl thrown, w1)
                   | (None, w1) \<Rightarrow> (Inr (Error message), w1)))"

text \<open>\<^verbatim>\<open>throw this.handleError(error)\<close>: whatever \<^verbatim>\<open>handleError\<close> returns or throws is
  thrown.\<close>

definition throw_handleError ::
  "logging \<Rightarrow> platform \<Rightarrow> js_error \<Rightarrow> 's world \<Rightarrow> (js_error + 'a) \<times> 's world" where
  "throw_handleError lg pf error w =
     (case handleError lg pf error w of
        (Inl thrown, w1) \<Rightarrow> (Inl thrown, w1)
      | (Inr err, w1) \<Rightarrow> (Inl err, w1))"

subsection \<open>HTTP methods\<close>

definition get ::
  "logging \<Rightarrow> platform \<Rightarrow> 's transport \<Rightarrow> ApiClient \<Rightarrow> string \<Rightarrow> AxiosRequestConfig option \<Rightarrow>
   's world \<Rightarrow> (js_error + ApiResponse) \<times> 's world" where
  "get lg pf transport this url config w =
     (case axios_get lg pf transport (client this) url config w of
        (Inr response, w1) \<Rightarrow> (Inr (formatResponse response), w1)
      | (Inl error, w1) \<Rightarrow> throw_handleError lg pf error w1)"

definition post ::
  "logging \<Rightarrow> platform \<Rightarrow> 's transport \<Rightarrow> ApiClient \<Rightarrow> string \<Rightarrow> jsval \<Rightarrow>
   AxiosRequestConfig option \<Rightarrow> 's world \<Rightarrow> (js_error + ApiResponse) \<times> 's world" where
  "post lg pf transport this url body config w =
     (case axios_post lg pf transport (client this) url body config w of
        (Inr response, w1) \<Rightarrow> (Inr (formatResponse response), w1)
      | (Inl error, w1) \<Rightarrow> throw_handleError lg pf error w1)"

definition put ::
  "logging \<Rightarrow> platform \<Rightarrow> 's transport \<Rightarrow> ApiClient \<Rightarrow> string \<Rightarrow> jsval \<Rightarrow>
   AxiosRequestConfig option \<Rightarrow> 's world \<Rightarrow> (js_error + ApiResponse) \<times> 's world" where
  "put lg pf transport this url body config w =
     (case axios_put lg pf transport (client this) url body config w of
        (Inr response, w1) \<Rightarrow> (Inr (formatResponse response), w1)
      | (Inl error, w1) \<Rightarrow> throw_handleError lg pf error w1)"

definition patch ::
  "logging \<Rightarrow> platform \<Rightarrow> 's transport \<Rightarrow> ApiClient \<Rightarrow> string \<Rightarrow> jsval \<Rightarrow>
   AxiosRequestConfig option \<Rightarrow> 's world \<Rightarrow> (js_error + ApiResponse) \<times> 's world" where
  "patch lg pf transport this url body config w =
     (case axios_patch lg pf transport (client this) url body config w of
        (Inr response, w1) \<Rightarrow> (Inr (formatResponse response), w1)
      | (Inl error, w1) \<Rightarrow> throw_handleError lg pf error w1)"

definition delete ::
  "logging \<Rightarrow> platform \<Rightarrow> 's transport \<Rightarrow> ApiClient \<Rightarrow> string \<Rightarrow> AxiosRequestConfig option \<Rightarrow>
   's world \<Rightarrow> (js_error + ApiResponse) \<times> 's world" where
  "delete lg pf transport this url config w =
     (case axios_delete lg pf transport (client this) url config w of
        (Inr response, w1) \<Rightarrow> (Inr (formatResponse response), w1)
      | (Inl error, w1) \<Rightarrow> throw_handleError lg pf error w1)"

subsection \<open>Retry mechanism\<close>

text \<open>\<^verbatim>\<open>delay(ms)\<close> suspends the call on a timer of \<open>ms\<close> milliseconds.\<close>

definition delay :: "int \<Rightarrow> 's world \<Rightarrow> 's world" where
  "delay ms w = w\<lparr>waited := waited w @ [ms]\<rparr>"

text \<open>
  The loop of \<^verbatim>\<open>withRetry\<close>, from the test \<^verbatim>\<open>attempt <= maxAttempts\<close> on. The variable
  \<^verbatim>\<open>lastError\<close> is \<open>None\<close> until it is assigned, and throwing it unassigned throws
  \<^verbatim>\<open>undefined\<close>: the result \<open>Inl None\<close>. The parameter the source calls
  \<^verbatim>\<open>delay\<close> is \<open>delay0\<close> here.
\<close>

function withRetry_loop ::
  "logging \<Rightarrow> ('s world \<Rightarrow> (js_error + 'a) \<times> 's world) \<Rightarrow> int \<Rightarrow> int \<Rightarrow> int \<Rightarrow>
   js_error option \<Rightarrow> 's world \<Rightarrow> (js_error option + 'a) \<times> 's world" where
  "withRetry_loop lg operation maxAttempts delay0 attempt lastError w =
     (if attempt \<le> maxAttempts
      then (case operation w of
              (Inr v, w1) \<Rightarrow> (Inr v, w1)
            | (Inl error, w1) \<Rightarrow>
                (case call_logger (log_warn lg)
                        (''Attempt '' @ Number_toString attempt @ '' failed: ''
                           @ error_message error) (Plain JUndefined) w1 of
                   (Some thrown, w2) \<Rightarrow> (Inl (Some thrown), w2)
                 | (None, w2) \<Rightarrow>
                     if attempt = maxAttempts then (Inl (Some error), w2)
                     else withRetry_loop lg operation maxAttempts delay0 (attempt + 1)
                            (Some error) (delay (delay0 * attempt) w2)))
      else (Inl lastError, w))"
  by pat_completeness auto
termination
  by (relation "measure (\<lambda>(lg, operation, maxAttempts, delay0, attempt, lastError, w).
        nat (maxAttempts + 1 - attempt))") auto

declare withRetry_loop.simps [simp del]

definition withRetry ::
  "logging \<Rightarrow> testConfig \<Rightarrow> ('s world \<Rightarrow> (js_error + 'a) \<times> 's world) \<Rightarrow> int option \<Rightarrow>
   int option \<Rightarrow> 's world \<Rightarrow> (js_error option + 'a) \<times> 's world" where
  "withRetry lg tc operation maxAttempts_arg delay_arg w =
     (let maxAttempts = (case maxAttempts_arg of None \<Rightarrow> apiRetryAttempts tc | Some n \<Rightarrow> n);
          delay0 = (case delay_arg of None \<Rightarrow> 1000 | Some d \<Rightarrow> d)
      in withRetry_loop lg operation maxAttempts delay0 1 None w)"

section \<open>Notions the properties are stated with\<close>

text \<open>A logging capability none of whose calls throws.\<close>

definition never_throws :: "logging \<Rightarrow> bool" where
  "never_throws lg \<longleftrightarrow>
     (\<forall>m d out. fst (log_debug lg m d out) = None \<and> fst (log_warn lg m d out) = None
        \<and> fst (log_error lg m d out) = None)"

text \<open>A logging capability none of whose calls on plain data throws.\<close>

definition never_throws_on_data :: "logging \<Rightarrow> bool" where
  "never_throws_on_data lg \<longleftrightarrow>
     (\<forall>m v out. fst (log_debug lg m (Plain v) out) = None
        \<and> fst (log_warn lg m (Plain v) out) = None
        \<and> fst (log_error lg m (Plain v) out) = None)"

text \<open>
  The three kinds of error of the specification. In the code all three are plain
  \<^verbatim>\<open>Error\<close> objects; what tells them apart is the form of the message that
  \<^verbatim>\<open>handleError\<close> gives each.
\<close>

definition is_ServerError :: "js_error \<Rightarrow> bool" where
  "is_ServerError err \<longleftrightarrow> prefix ''API Error: '' (error_message err)"

definition is_NoResponseError :: "js_error \<Rightarrow> bool" where
  "is_NoResponseError err \<longleftrightarrow> error_message err = ''Network Error: No response received''"

definition is_RequestSetupError :: "js_error \<Rightarrow> bool" where
  "is_RequestSetupError err \<longleftrightarrow> prefix ''Request Error: '' (error_message err)"

text \<open>
  An operation as \<^verbatim>\<open>withRetry\<close> observes it: invocation number \<open>k\<close> (counted from 0 in
  the world) has the outcome \<open>f k\<close>, and every invocation advances the count.
\<close>

definition scripted ::
  "(nat \<Rightarrow> js_error + 'a) \<Rightarrow> nat world \<Rightarrow> (js_error + 'a) \<times> nat world" where
  "scripted f w = (f (ext w), w\<lparr>ext := Suc (ext w)\<rparr>)"

text \<open>
  Any operation, with the outcome of each of its invocations appended to a trace kept
  beside its own state: the trace shows how often it was invoked and what each
  invocation returned or threw.
\<close>

definition traced ::
  "('s world \<Rightarrow> (js_error + 'a) \<times> 's world) \<Rightarrow> ('s \<times> (js_error + 'a) list) world \<Rightarrow>
   (js_error + 'a) \<times> ('s \<times> (js_error + 'a) list) world" where
  "traced operation w =
     (case operation \<lparr>console = console w, waited = waited w, ext = fst (ext w)\<rparr> of
        (r, w') \<Rightarrow>
          (r, \<lparr>console = console w', waited = waited w',
               ext = (ext w', snd (ext w) @ [r])\<rparr>))"

text \<open>A transport that answers by \<open>respond\<close> and keeps the requests it was handed, in
  order; and the Authorization header of each request so recorded.\<close>

definition recording :: "(request \<Rightarrow> js_error + AxiosResponse) \<Rightarrow> (request list) transport" where
  "recording respond rq sent = (respond rq, sent @ [rq])"

definition authorization_sent :: "(request list) world \<Rightarrow> string option list" where
  "authorization_sent w = map (\<lambda>rq. request_headers rq ''Authorization'') (ext w)"

text \<open>The states a client can be in: built by the constructor, then changed by its own
  methods only (its fields are private).\<close>

inductive client_state :: "ApiClient \<Rightarrow> bool" where
  constructed: "client_state (constructor tc b)"
| after_setAuthToken: "client_state this \<Longrightarrow> client_state (setAuthToken token this)"
| after_removeAuthToken: "client_state this \<Longrightarrow> client_state (removeAuthToken this)"
| after_setBaseURL: "client_state this \<Longrightarrow> client_state (setBaseURL u this)"

subsection \<open>Concrete inputs\<close>

definition example_platform :: platform where
  "example_platform =
     \<lparr>JSON_stringify = (\<lambda>v. case v of JObj [] \<Rightarrow> ''{}'' | JUndefined \<Rightarrow> ''undefined''
                                | JNull \<Rightarrow> ''null'' | _ \<Rightarrow> ''[data]''),
      Date_toISOString = (\<lambda>out. ''2024-01-01T00:00:00.000Z''),
      toUpperCase = (\<lambda>s. if s = ''get'' then ''GET'' else s)\<rparr>"

definition example_config :: testConfig where
  "example_config =
     \<lparr>apiBaseUrl = ''http://localhost:3000/api'', testEnv = ''development'',
      apiTimeout = 30000, apiRetryAttempts = 3\<rparr>"

definition example_client :: ApiClient where
  "example_client = constructor example_config (Some ''https://reqres.in/api'')"

definition example_request :: request where
  "example_request =
     mergeConfig (client example_client) ''get'' ''/users/999'' JUndefined None"

definition example_response :: "int \<Rightarrow> string \<Rightarrow> jsval \<Rightarrow> AxiosResponse" where
  "example_response code text body =
     \<lparr>response_data = body, response_status = code, response_statusText = text,
      response_headers = [(''content-type'', ''application/json'')],
      response_config = example_request, response_request = Circular\<rparr>"

text \<open>
  Transport failures as they arise under Node, where the request handle is a circular
  object: one with a response (the server answered 404 with an empty object) and one with
  a request only (the request timed out). Then the same timeout with a request handle that
  is plain data, and a failure with neither response nor request.
\<close>

definition failure_404 :: js_error where
  "failure_404 =
     \<lparr>error_name = ''AxiosError'',
      error_message = ''Request failed with status code 404'',
      error_response = Some (example_response 404 ''Not Found'' (JObj [])),
      error_request = Circular, error_config = Some example_request,
      error_toJSON = Some (JObj [(''message'', JStr ''Request failed with status code 404''),
                                 (''name'', JStr ''AxiosError''), (''status'', JNum 404)])\<rparr>"

definition failure_no_response :: js_error where
  "failure_no_response =
     \<lparr>error_name = ''AxiosError'',
      error_message = ''timeout of 30000ms exceeded'', error_response = None,
      error_request = Circular, error_config = Some example_request,
      error_toJSON = Some (JObj [(''message'', JStr ''timeout of 30000ms exceeded''),
                                 (''name'', JStr ''AxiosError''),
                                 (''code'', JStr ''ECONNABORTED'')])\<rparr>"

definition failure_no_response_plain :: js_error where
  "failure_no_response_plain = failure_no_response\<lparr>error_request := Plain (JObj [])\<rparr>"

definition failure_setup :: js_error where
  "failure_setup = Error ''Invalid URL''"

text \<open>A server that answers every request with 200 and an empty object, one that
  answers every request with 404, and one that never answers.\<close>

definition server_ok :: "unit transport" where
  "server_ok rq s = (Inr (example_response 200 ''OK'' (JObj [])), s)"

definition server_404 :: "unit transport" where
  "server_404 rq s = (Inl failure_404, s)"

definition server_timeout :: "unit transport" where
  "server_timeout rq s = (Inl failure_no_response, s)"

text \<open>The same server as a plain answer function, for a recording transport.\<close>

definition respond_ok :: "request \<Rightarrow> js_error + AxiosResponse" where
  "respond_ok rq = Inr (example_response 200 ''OK'' (JObj []))"

definition world0 :: "unit world" where
  "world0 = \<lparr>console = [], waited = [], ext = ()\<rparr>"

text \<open>A logger that does nothing, a logger that prints the message alone, and a logger
  every call of which throws.\<close>

definition line_logger :: logging where
  "line_logger =
     \<lparr>log_debug = (\<lambda>m d out. (None, out @ [m])), log_warn = (\<lambda>m d out. (None, out @ [m])),
      log_error = (\<lambda>m d out. (None, out @ [m]))\<rparr>"

definition noop_logger :: logging where
  "noop_logger =
     \<lparr>log_debug = (\<lambda>m d out. (None, out)), log_warn = (\<lambda>m d out. (None, out)),
      log_error = (\<lambda>m d out. (None, out))\<rparr>"

definition throwing_logger :: logging where
  "throwing_logger =
     \<lparr>log_debug = (\<lambda>m d out. (Some (Error ''log sink closed''), out)),
      log_warn = (\<lambda>m d out. (Some (Error ''log sink closed''), out)),
      log_error = (\<lambda>m d out. (Some (Error ''log sink closed''), out))\<rparr>"

text \<open>An operation that fails on its first two invocations and succeeds on the third.\<close>

definition flaky :: "nat \<Rightarrow> js_error + jsval" where
  "flaky k = (if k < 2 then Inl (Error (''failure '' @ string_of_nat (Suc k)))
              else Inr (JStr ''done''))"

definition always_failing :: "nat \<Rightarrow> js_error + jsval" where
  "always_failing k = Inl (Error (''failure '' @ string_of_nat (Suc k)))"

definition retry_world0 :: "nat world" where
  "retry_world0 = \<lparr>console = [], waited = [], ext = 0\<rparr>"

definition traced_world0 :: "(nat \<times> (js_error + jsval) list) world" where
  "traced_world0 = \<lparr>console = [], waited = [], ext = (0, [])\<rparr>"

definition sent_world0 :: "(request list) world" where
  "sent_world0 = \<lparr>console = [], waited = [], ext = []\<rparr>"

definition config_with_authorization :: AxiosRequestConfig where
  "config_with_authorization =
     \<lparr>config_headers = [''Authorization'' \<mapsto> ''Basic dXNlcjpwdw==''],
      config_baseURL = None, config_timeout = None, config_data = JUndefined\<rparr>"

section \<open>Auxiliary facts\<close>

subsection \<open>Loggers and what they throw\<close>

text \<open>The repository's logger formats and prints. On plain data none of its calls
  throws; an error-level call on a circular object throws what \<^verbatim>\<open>JSON.stringify\<close>
  throws.\<close>

lemma never_throws_on_dataI: "never_throws lg \<Longrightarrow> never_throws_on_data lg"
  by (simp add: never_throws_def never_throws_on_data_def)

lemma logger_never_throws_on_data: "never_throws_on_data (logger pf tc)"
  by (simp add: never_throws_on_data_def logger_def Let_def Logger_debug_def Logger_warn_def
      Logger_error_def Logger_log_def formatMessage_def stringify_def)

lemma logger_error_circular:
  "fst (log_error (logger pf tc) m Circular out)
     = Some (TypeError ''Converting circular structure to JSON'')"
  by (simp add: logger_def Let_def Logger_error_def Logger_log_def formatMessage_def
      stringify_def)

lemma noop_never_throws: "never_throws noop_logger"
  by (simp add: never_throws_def noop_logger_def)

lemma line_never_throws: "never_throws line_logger"
  by (simp add: never_throws_def line_logger_def)

lemma call_logger_unfold:
  "call_logger f m d w = (fst (f m d (console w)), w\<lparr>console := snd (f m d (console w))\<rparr>)"
  by (simp add: call_logger_def split: prod.splits)

lemma call_logger_on_data:
  assumes "never_throws_on_data lg"
  shows "call_logger (log_debug lg) m (Plain v) w
           = (None, w\<lparr>console := snd (log_debug lg m (Plain v) (console w))\<rparr>)"
    and "call_logger (log_warn lg) m (Plain v) w
           = (None, w\<lparr>console := snd (log_warn lg m (Plain v) (console w))\<rparr>)"
    and "call_logger (log_error lg) m (Plain v) w
           = (None, w\<lparr>console := snd (log_error lg m (Plain v) (console w))\<rparr>)"
  using assms by (simp_all add: never_throws_on_data_def call_logger_unfold)

lemma call_logger_never_throws:
  assumes "never_throws lg"
  shows "call_logger (log_error lg) m d w
           = (None, w\<lparr>console := snd (log_error lg m d (console w))\<rparr>)"
  using assms by (simp add: never_throws_def call_logger_unfold)

subsection \<open>The failure handler\<close>

lemma handleError_returns:
  assumes "never_throws lg"
  shows "fst (handleError lg pf e w) =
     Inr (Error (case error_response e of
                   Some r \<Rightarrow> ''API Error: '' @ Number_toString (response_status r) @ '' ''
                              @ response_statusText r @ '' - ''
                              @ JSON_stringify pf (response_data r)
                 | None \<Rightarrow> (if truthy_any (error_request e)
                            then ''Network Error: No response received''
                            else ''Request Error: '' @ error_message e)))"
  by (simp add: handleError_def Let_def call_logger_never_throws [OF assms]
      split: option.splits)

lemma error_data_plain:
  assumes "error_response e = None" and "\<not> truthy_any (error_request e)"
  shows "\<exists>v. error_data e = Plain v"
  using assms by (cases "error_request e") (simp_all add: error_data_def split: option.splits)

lemma handleError_with_response:
  assumes "never_throws_on_data lg" and "error_response e = Some r"
  shows "fst (handleError lg pf e w) =
     Inr (Error (''API Error: '' @ Number_toString (response_status r) @ '' ''
                  @ response_statusText r @ '' - '' @ JSON_stringify pf (response_data r)))"
  using assms(2) by (simp add: handleError_def Let_def call_logger_on_data [OF assms(1)])

lemma handleError_setup:
  assumes "never_throws_on_data lg" and "error_response e = None"
    and "\<not> truthy_any (error_request e)"
  shows "fst (handleError lg pf e w) = Inr (Error (''Request Error: '' @ error_message e))"
proof -
  from error_data_plain [OF assms(2,3)] obtain v where "error_data e = Plain v" ..
  with assms(2,3) show ?thesis
    by (simp add: handleError_def Let_def call_logger_on_data [OF assms(1)])
qed

lemma handleError_plain_request:
  assumes "never_throws_on_data lg" and "error_response e = None"
    and "error_request e = Plain v" and "truthy v"
  shows "fst (handleError lg pf e w) = Inr (Error ''Network Error: No response received'')"
  using assms(2,3,4) by (simp add: handleError_def Let_def call_logger_on_data [OF assms(1)])

lemma handleError_circular_request:
  assumes "error_response e = None" and "error_request e = Circular"
  shows "fst (handleError (logger pf tc) pf e w)
           = Inl (TypeError ''Converting circular structure to JSON'')"
proof -
  obtain t out where l: "log_error (logger pf tc) ''Network Error: No response received''
                           Circular (console w) = (t, out)"
    by (cases "log_error (logger pf tc) ''Network Error: No response received''
                 Circular (console w)")
  with logger_error_circular [of pf tc "''Network Error: No response received''" "console w"]
  have "t = Some (TypeError ''Converting circular structure to JSON'')" by simp
  with l assms show ?thesis
    by (simp add: handleError_def Let_def call_logger_def)
qed

text \<open>What a verb method's catch block throws with the repository's logger, for each
  failure.\<close>

lemma handleError_logger:
  "fst (handleError (logger pf tc) pf e w) =
     (case error_response e of
        Some r \<Rightarrow> Inr (Error (''API Error: '' @ Number_toString (response_status r) @ '' ''
                              @ response_statusText r @ '' - ''
                              @ JSON_stringify pf (response_data r)))
      | None \<Rightarrow>
          (case error_request e of
             Circular \<Rightarrow> Inl (TypeError ''Converting circular structure to JSON'')
           | Plain v \<Rightarrow>
               if truthy v then Inr (Error ''Network Error: No response received'')
               else Inr (Error (''Request Error: '' @ error_message e))))"
proof (cases "error_response e")
  case (Some r)
  then show ?thesis
    by (simp add: handleError_with_response [OF logger_never_throws_on_data])
next
  case None
  show ?thesis
  proof (cases "error_request e")
    case Circular
    with None show ?thesis by (simp add: handleError_circular_request)
  next
    case (Plain v)
    with None show ?thesis
      by (cases "truthy v")
         (simp_all add: handleError_plain_request [OF logger_never_throws_on_data]
            handleError_setup [OF logger_never_throws_on_data])
  qed
qed

lemma handleError_world:
  "ext (snd (handleError lg pf e w)) = ext w"
  "waited (snd (handleError lg pf e w)) = waited w"
  by (simp_all add: handleError_def Let_def call_logger_unfold split: option.splits)

lemma throw_handleError_fst:
  "fst (throw_handleError lg pf e w)
     = (case fst (handleError lg pf e w) of Inl thrown \<Rightarrow> Inl thrown | Inr err \<Rightarrow> Inl err)"
  by (cases "handleError lg pf e w") (simp add: throw_handleError_def split: sum.splits)

lemma throw_handleError_returns:
  assumes "never_throws lg"
  shows "fst (throw_handleError lg pf e w) =
     Inl (Error (case error_response e of
                   Some r \<Rightarrow> ''API Error: '' @ Number_toString (response_status r) @ '' ''
                              @ response_statusText r @ '' - ''
                              @ JSON_stringify pf (response_data r)
                 | None \<Rightarrow> (if truthy_any (error_request e)
                            then ''Network Error: No response received''
                            else ''Request Error: '' @ error_message e)))"
  by (simp add: throw_handleError_fst handleError_returns [OF assms])

lemma throw_handleError_logger:
  "fst (throw_handleError (logger pf tc) pf e w) =
     Inl (case error_response e of
            Some r \<Rightarrow> Error (''API Error: '' @ Number_toString (response_status r) @ '' ''
                              @ response_statusText r @ '' - ''
                              @ JSON_stringify pf (response_data r))
          | None \<Rightarrow>
              (case error_request e of
                 Circular \<Rightarrow> TypeError ''Converting circular structure to JSON''
               | Plain v \<Rightarrow>
                   if truthy v then Error ''Network Error: No response received''
                   else Error (''Request Error: '' @ error_message e)))"
  by (simp add: throw_handleError_fst handleError_logger split: option.splits jsobj.splits)

lemma throw_handleError_world:
  "ext (snd (throw_handleError lg pf e w)) = ext w"
  "waited (snd (throw_handleError lg pf e w)) = waited w"
  using handleError_world [of lg pf e w]
  by (auto simp: throw_handleError_def split: prod.splits sum.splits)

subsection \<open>The verb methods\<close>

text \<open>The interceptors log plain data only, so with a logger that does not throw on
  plain data a call reaches the transport, and its outcome is the transport's, mapped by
  \<^verbatim>\<open>formatResponse\<close> or by the failure handler.\<close>

lemma axios_request_on_data:
  assumes "never_throws_on_data lg"
  shows "fst (axios_request lg pf transport rq w) = fst (transport rq (ext w))"
    and "ext (snd (axios_request lg pf transport rq w)) = snd (transport rq (ext w))"
    and "waited (snd (axios_request lg pf transport rq w)) = waited w"
  by (auto simp: axios_request_def promise_then_def request_fulfilled_def
      response_fulfilled_def response_rejected_def dispatchRequest_def
      call_logger_on_data [OF assms] split: prod.splits sum.splits)

lemma pipeline_outcome:
  assumes "never_throws_on_data lg"
    and "\<And>e v. fst (throw_handleError lg pf e (v :: 's world)) = H e"
  shows "fst (case axios_request lg pf transport rq (w :: 's world) of
                (Inr response, w1) \<Rightarrow> (Inr (formatResponse response), w1)
              | (Inl error, w1) \<Rightarrow> throw_handleError lg pf error w1)
         = (case fst (transport rq (ext w)) of
              Inr r \<Rightarrow> Inr (formatResponse r)
            | Inl e \<Rightarrow> H e)"
proof -
  obtain r w1 where h: "axios_request lg pf transport rq w = (r, w1)"
    by (cases "axios_request lg pf transport rq w")
  from axios_request_on_data(1) [OF assms(1), of pf transport rq w] h
  have r: "r = fst (transport rq (ext w))"
    by simp
  show ?thesis
    using h r assms(2) by (auto split: sum.splits)
qed

lemma pipeline_ext:
  assumes "never_throws_on_data lg"
  shows "ext (snd (case axios_request lg pf transport rq w of
                (Inr response, w1) \<Rightarrow> (Inr (formatResponse response), w1)
              | (Inl error, w1) \<Rightarrow> throw_handleError lg pf error w1))
         = snd (transport rq (ext w))"
proof -
  obtain r w1 where h: "axios_request lg pf transport rq w = (r, w1)"
    by (cases "axios_request lg pf transport rq w")
  from axios_request_on_data(2) [OF assms, of pf transport rq w] h
  have w1: "ext w1 = snd (transport rq (ext w))"
    by simp
  show ?thesis
    using h w1 by (auto split: sum.splits simp: throw_handleError_world)
qed

lemma get_outcome:
  assumes "never_throws_on_data lg"
    and "\<And>e v. fst (throw_handleError lg pf e (v :: 's world)) = H e"
  shows "fst (get lg pf transport this url config (w :: 's world))
         = (case fst (transport (mergeConfig (client this) ''get'' url (config_data_of config) config) (ext w)) of
              Inr r \<Rightarrow> Inr (formatResponse r)
            | Inl e \<Rightarrow> H e)"
  unfolding get_def axios_get_def by (rule pipeline_outcome [OF assms])

lemma get_ext:
  assumes "never_throws_on_data lg"
  shows "ext (snd (get lg pf transport this url config w))
         = snd (transport (mergeConfig (client this) ''get'' url (config_data_of config) config) (ext w))"
  unfolding get_def axios_get_def by (rule pipeline_ext [OF assms])

lemma delete_outcome:
  assumes "never_throws_on_data lg"
    and "\<And>e v. fst (throw_handleError lg pf e (v :: 's world)) = H e"
  shows "fst (delete lg pf transport this url config (w :: 's world))
         = (case fst (transport (mergeConfig (client this) ''delete'' url (config_data_of config) config) (ext w)) of
              Inr r \<Rightarrow> Inr (formatResponse r)
            | Inl e \<Rightarrow> H e)"
  unfolding delete_def axios_delete_def by (rule pipeline_outcome [OF assms])

lemma delete_ext:
  assumes "never_throws_on_data lg"
  shows "ext (snd (delete lg pf transport this url config w))
         = snd (transport (mergeConfig (client this) ''delete'' url (config_data_of config) config) (ext w))"
  unfolding delete_def axios_delete_def by (rule pipeline_ext [OF assms])

lemma post_outcome:
  assumes "never_throws_on_data lg"
    and "\<And>e v. fst (throw_handleError lg pf e (v :: 's world)) = H e"
  shows "fst (post lg pf transport this url body config (w :: 's world))
         = (case fst (transport (mergeConfig (client this) ''post'' url body config) (ext w)) of
              Inr r \<Rightarrow> Inr (formatResponse r)
            | Inl e \<Rightarrow> H e)"
  unfolding post_def axios_post_def by (rule pipeline_outcome [OF assms])

lemma post_ext:
  assumes "never_throws_on_data lg"
  shows "ext (snd (post lg pf transport this url body config w))
         = snd (transport (mergeConfig (client this) ''post'' url body config) (ext w))"
  unfolding post_def axios_post_def by (rule pipeline_ext [OF assms])

lemma put_outcome:
  assumes "never_throws_on_data lg"
    and "\<And>e v. fst (throw_handleError lg pf e (v :: 's world)) = H e"
  shows "fst (put lg pf transport this url body config (w :: 's world))
         = (case fst (transport (mergeConfig (client this) ''put'' url body config) (ext w)) of
              Inr r \<Rightarrow> Inr (formatResponse r)
            | Inl e \<Rightarrow> H e)"
  unfolding put_def axios_put_def by (rule pipeline_outcome [OF assms])

lemma put_ext:
  assumes "never_throws_on_data lg"
  shows "ext (snd (put lg pf transport this url body config w))
         = snd (transport (mergeConfig (client this) ''put'' url body config) (ext w))"
  unfolding put_def axios_put_def by (rule pipeline_ext [OF assms])

lemma patch_outcome:
  assumes "never_throws_on_data lg"
    and "\<And>e v. fst (throw_handleError lg pf e (v :: 's world)) = H e"
  shows "fst (patch lg pf transport this url body config (w :: 's world))
         = (case fst (transport (mergeConfig (client this) ''patch'' url body config) (ext w)) of
              Inr r \<Rightarrow> Inr (formatResponse r)
            | Inl e \<Rightarrow> H e)"
  unfolding patch_def axios_patch_def by (rule pipeline_outcome [OF assms])

lemma patch_ext:
  assumes "never_throws_on_data lg"
  shows "ext (snd (patch lg pf transport this url body config w))
         = snd (transport (mergeConfig (client this) ''patch'' url body config) (ext w))"
  unfolding patch_def axios_patch_def by (rule pipeline_ext [OF assms])

subsection \<open>Status codes in decimal\<close>

lemma string_of_nat_three_digits:
  assumes "100 \<le> n" and "n \<le> 999"
  shows "string_of_nat n =
     [''0123456789'' ! (n div 100), ''0123456789'' ! (n div 10 mod 10),
      ''0123456789'' ! (n mod 10)]"
proof -
  have a: "string_of_nat n = string_of_nat (n div 10) @ [''0123456789'' ! (n mod 10)]"
    using assms by (subst string_of_nat.simps) simp
  have e: "n div 10 div 10 = n div 100"
    using div_mult2_eq [of n 10 10] by simp
  have b: "string_of_nat (n div 10)
             = string_of_nat (n div 100) @ [''0123456789'' ! (n div 10 mod 10)]"
    using assms by (subst string_of_nat.simps) (simp add: e)
  have c: "string_of_nat (n div 100) = [''0123456789'' ! (n div 100)]"
    using assms by (subst string_of_nat.simps) simp
  show ?thesis
    by (simp only: a b c append.simps)
qed

lemma nat_digits:
  assumes "100 \<le> (s::int)"
  shows "nat s div 100 = nat (s div 100)" "nat s div 10 mod 10 = nat (s div 10 mod 10)"
    "nat s mod 10 = nat (s mod 10)"
  using assms by (simp_all add: nat_div_distrib nat_mod_distrib)

lemma three_digits:
  assumes "100 \<le> s" and "s \<le> 999"
  shows "Number_toString s =
     [''0123456789'' ! nat (s div 100), ''0123456789'' ! nat (s div 10 mod 10),
      ''0123456789'' ! nat (s mod 10)]"
proof -
  have "Number_toString s = string_of_nat (nat s)"
    using assms by (simp add: Number_toString_def)
  also have "\<dots> = [''0123456789'' ! (nat s div 100), ''0123456789'' ! (nat s div 10 mod 10),
      ''0123456789'' ! (nat s mod 10)]"
    using assms by (intro string_of_nat_three_digits) simp_all
  finally show ?thesis
    using assms by (simp only: nat_digits)
qed

subsection \<open>Runs of the retry loop\<close>

text \<open>The loop from attempt \<open>a\<close> on: when every invocation fails, when the first
  \<open>j\<close> fail and the next succeeds, and for an arbitrary operation.\<close>

lemma loop_all_fail:
  assumes nt: "never_throws_on_data lg" and fails: "\<And>k. f k = Inl (e k)"
  shows "a \<le> N \<Longrightarrow> n = nat (N - a) \<Longrightarrow>
     fst (withRetry_loop lg (scripted f) N d a le w) = Inl (Some (e (ext w + n)))
     \<and> ext (snd (withRetry_loop lg (scripted f) N d a le w)) = ext w + n + 1
     \<and> waited (snd (withRetry_loop lg (scripted f) N d a le w))
         = waited w @ map (\<lambda>k. d * k) [a..N - 1]"
proof (induction n arbitrary: a le w)
  case 0
  then have "a = N" by simp
  then show ?case
    by (subst (1 2 3) withRetry_loop.simps)
       (simp add: scripted_def fails call_logger_on_data [OF nt])
next
  case (Suc n)
  then have lt: "a < N" and n: "n = nat (N - (a + 1))" and le': "a + 1 \<le> N" by simp_all
  let ?w = "delay (d * a)
     (w\<lparr>ext := Suc (ext w),
        console := snd (log_warn lg (''Attempt '' @ Number_toString a @ '' failed: ''
                          @ error_message (e (ext w))) (Plain JUndefined) (console w))\<rparr>)"
  have step: "withRetry_loop lg (scripted f) N d a le w
                = withRetry_loop lg (scripted f) N d (a + 1) (Some (e (ext w))) ?w"
    using lt
    by (subst withRetry_loop.simps)
       (simp add: scripted_def fails call_logger_on_data [OF nt])
  have up: "[a..N - 1] = a # [a + 1..N - 1]"
    using lt by (simp add: upto_rec1)
  from Suc.IH [OF le' n, of "Some (e (ext w))" ?w] show ?case
    by (simp add: step up delay_def)
qed

lemma traced_fails:
  assumes "\<And>v. \<exists>err. fst (operation v) = Inl err"
  shows "\<exists>err w1. traced operation w = (Inl err, w1) \<and> snd (ext w1) = snd (ext w) @ [Inl err]"
proof -
  let ?v = "\<lparr>console = console w, waited = waited w, ext = fst (ext w)\<rparr>"
  obtain r w' where op: "operation ?v = (r, w')" by (cases "operation ?v")
  from assms [of ?v] op obtain err where "r = Inl err" by auto
  with op show ?thesis by (simp add: traced_def)
qed

lemma loop_all_fail_traced:
  assumes nt: "never_throws_on_data lg" and fails: "\<And>v. \<exists>err. fst (operation v) = Inl err"
  shows "a \<le> N \<Longrightarrow> n = nat (N - a) \<Longrightarrow>
     \<exists>err tr. fst (withRetry_loop lg (traced operation) N d a le w) = Inl (Some err)
       \<and> snd (ext (snd (withRetry_loop lg (traced operation) N d a le w))) = snd (ext w) @ tr
       \<and> length tr = Suc n \<and> last tr = Inl err"
proof (induction n arbitrary: a le w)
  case 0
  then have aN: "a = N" by simp
  from traced_fails [where operation = operation and w = w, OF fails] obtain err w1
    where op: "traced operation w = (Inl err, w1)"
      and tr: "snd (ext w1) = snd (ext w) @ [Inl err]" by blast
  have "fst (withRetry_loop lg (traced operation) N d a le w) = Inl (Some err)"
    "snd (ext (snd (withRetry_loop lg (traced operation) N d a le w))) = snd (ext w) @ [Inl err]"
    using aN op tr
    by (subst withRetry_loop.simps, simp add: call_logger_on_data [OF nt])+
  then show ?case by (intro exI [of _ err] exI [of _ "[Inl err]"]) simp
next
  case (Suc n)
  then have lt: "a < N" and n: "n = nat (N - (a + 1))" and le': "a + 1 \<le> N" by simp_all
  from traced_fails [where operation = operation and w = w, OF fails] obtain err w1
    where op: "traced operation w = (Inl err, w1)"
      and tr: "snd (ext w1) = snd (ext w) @ [Inl err]" by blast
  let ?w = "delay (d * a)
     (w1\<lparr>console := snd (log_warn lg (''Attempt '' @ Number_toString a @ '' failed: ''
                          @ error_message err) (Plain JUndefined) (console w1))\<rparr>)"
  have step: "withRetry_loop lg (traced operation) N d a le w
                = withRetry_loop lg (traced operation) N d (a + 1) (Some err) ?w"
    using lt op
    by (subst withRetry_loop.simps) (simp add: call_logger_on_data [OF nt])
  have ext_w: "snd (ext ?w) = snd (ext w) @ [Inl err]"
    using tr by (simp add: delay_def)
  from Suc.IH [OF le' n, of "Some err" ?w] obtain err' tr'
    where r: "fst (withRetry_loop lg (traced operation) N d (a + 1) (Some err) ?w)
                = Inl (Some err')"
      and t: "snd (ext (snd (withRetry_loop lg (traced operation) N d (a + 1) (Some err) ?w)))
                = snd (ext ?w) @ tr'"
      and l: "length tr' = Suc n" and la: "last tr' = Inl err'"
    by blast
  from l have ne: "tr' \<noteq> []" by auto
  have f1: "fst (withRetry_loop lg (traced operation) N d a le w) = Inl (Some err')"
    unfolding step by (rule r)
  have f2: "snd (ext (snd (withRetry_loop lg (traced operation) N d a le w)))
              = snd (ext w) @ (Inl err # tr')"
    unfolding step t ext_w by simp
  have f3: "length (Inl err # tr') = Suc (Suc n)" using l by simp
  have f4: "last (Inl err # tr') = Inl err'" using la ne by simp
  from f1 f2 f3 f4 show ?case by blast
qed

lemma always_failing_run:
  "fst (withRetry (logger example_platform example_config) example_config
                  (traced (scripted always_failing)) (Some 3) None traced_world0)
    = Inl (Some (Error ''failure 3''))
   \<and> snd (ext (snd (withRetry (logger example_platform example_config) example_config
                  (traced (scripted always_failing)) (Some 3) None traced_world0)))
    = [Inl (Error ''failure 1''), Inl (Error ''failure 2''), Inl (Error ''failure 3'')]"
proof -
  have s: "string_of_nat (Suc 0) = ''1''" "string_of_nat (Suc (Suc 0)) = ''2''"
    "string_of_nat (Suc (Suc (Suc 0))) = ''3''"
    by (subst string_of_nat.simps, simp)+
  show ?thesis
    by (simp add: withRetry_def withRetry_loop.simps traced_def scripted_def
        always_failing_def traced_world0_def call_logger_on_data [OF logger_never_throws_on_data]
        delay_def s)
qed

lemma loop_fail_then_succeed:
  assumes nt: "never_throws_on_data lg"
  shows "(\<And>k. k < j \<Longrightarrow> f (ext w + k) = Inl (e k)) \<Longrightarrow> f (ext w + j) = Inr v \<Longrightarrow>
     a + int j \<le> N \<Longrightarrow>
     fst (withRetry_loop lg (scripted f) N d a le w) = Inr v
     \<and> ext (snd (withRetry_loop lg (scripted f) N d a le w)) = ext w + j + 1
     \<and> waited (snd (withRetry_loop lg (scripted f) N d a le w))
         = waited w @ map (\<lambda>k. d * k) [a..a + int j - 1]"
proof (induction j arbitrary: a le w e)
  case 0
  then show ?case
    by (subst (1 2 3) withRetry_loop.simps) (simp add: scripted_def)
next
  case (Suc j)
  from Suc.prems(1) [of 0] have f0: "f (ext w) = Inl (e 0)" by simp
  have lt: "a < N" using Suc.prems(3) by simp
  let ?w = "delay (d * a)
     (w\<lparr>ext := Suc (ext w),
        console := snd (log_warn lg (''Attempt '' @ Number_toString a @ '' failed: ''
                          @ error_message (e 0)) (Plain JUndefined) (console w))\<rparr>)"
  have step: "withRetry_loop lg (scripted f) N d a le w
                = withRetry_loop lg (scripted f) N d (a + 1) (Some (e 0)) ?w"
    using lt
    by (subst withRetry_loop.simps)
       (simp add: scripted_def f0 call_logger_on_data [OF nt])
  have ext_w: "ext ?w = Suc (ext w)" by (simp add: delay_def)
  have p1: "\<And>k. k < j \<Longrightarrow> f (ext ?w + k) = Inl (e (Suc k))"
    unfolding ext_w using Suc.prems(1) [of "Suc _"] by simp
  have p2: "f (ext ?w + j) = Inr v" unfolding ext_w using Suc.prems(2) by simp
  have p3: "a + 1 + int j \<le> N" using Suc.prems(3) by simp
  have up: "[a..a + int (Suc j) - 1] = a # [a + 1..a + 1 + int j - 1]"
    by (simp add: upto_rec1 [of a])
  have wt: "waited ?w = waited w @ [d * a]" by (simp add: delay_def)
  from Suc.IH [of ?w "\<lambda>k. e (Suc k)" "a + 1" "Some (e 0)", OF p1 p2 p3] show ?case
    unfolding step up ext_w wt by simp
qed

lemma loop_result_from_operation:
  assumes nt: "never_throws_on_data lg"
  shows "case fst (withRetry_loop lg operation N d a le w) of
           Inr v \<Rightarrow> (\<exists>w1. fst (operation w1) = Inr v)
         | Inl x \<Rightarrow> (x = le \<and> N < a) \<or> (\<exists>err w1. x = Some err \<and> fst (operation w1) = Inl err)"
proof (induction "nat (N + 1 - a)" arbitrary: a le w)
  case 0
  then have "\<not> a \<le> N" by simp
  then show ?case by (subst withRetry_loop.simps) simp
next
  case (Suc n)
  then have le: "a \<le> N" and n: "n = nat (N + 1 - (a + 1))" by simp_all
  obtain r w1 where op: "operation w = (r, w1)" by (cases "operation w")
  show ?case
  proof (cases r)
    case (Inr v)
    with le op have "fst (withRetry_loop lg operation N d a le w) = Inr v"
      by (subst withRetry_loop.simps) simp
    moreover have "fst (operation w) = Inr v" using op Inr by simp
    ultimately show ?thesis by auto
  next
    case (Inl err)
    have thrown: "fst (operation w) = Inl err" using op Inl by simp
    let ?w2 = "w1\<lparr>console := snd (log_warn lg (''Attempt '' @ Number_toString a
                   @ '' failed: '' @ error_message err) (Plain JUndefined) (console w1))\<rparr>"
    show ?thesis
    proof (cases "a = N")
      case True
      with op Inl have "fst (withRetry_loop lg operation N d a le w) = Inl (Some err)"
        by (subst withRetry_loop.simps) (simp add: call_logger_on_data [OF nt])
      with thrown show ?thesis by auto
    next
      case False
      with le op Inl
      have step: "withRetry_loop lg operation N d a le w
                = withRetry_loop lg operation N d (a + 1) (Some err) (delay (d * a) ?w2)"
        by (subst withRetry_loop.simps) (simp add: call_logger_on_data [OF nt])
      have lt: "\<not> N < a + 1" using le False by simp
      from Suc.hyps(1) [OF n, of "Some err" "delay (d * a) ?w2"]
      show ?thesis
        using thrown lt unfolding step by (auto split: sum.splits)
    qed
  qed
qed

lemma withRetry_without_attempts:
  "N \<le> 0 \<Longrightarrow> withRetry lg tc operation (Some N) delay_arg w = (Inl None, w)"
  by (simp add: withRetry_def withRetry_loop.simps)

subsection \<open>The Authorization header of an issued request\<close>

lemma client_state_headers:
  "client_state this \<Longrightarrow> defaults_headers (client this) ''Authorization'' = None"
  by (induction rule: client_state.induct)
     (simp_all add: constructor_def axios_create_def setAuthToken_def removeAuthToken_def
        setBaseURL_def Let_def)

lemma authorization_after_setAuthToken:
  assumes "client_state this"
    and "case config of None \<Rightarrow> True | Some c \<Rightarrow> config_headers c ''Authorization'' = None"
  shows "request_headers (mergeConfig (client (setAuthToken token this)) method url body config)
           ''Authorization'' = Some (''Bearer '' @ token)"
  using assms(2) client_state_headers [OF assms(1)]
  by (simp add: mergeConfig_def setAuthToken_def map_add_def split: option.splits)

lemma authorization_after_removeAuthToken:
  assumes "client_state this"
    and "case config of None \<Rightarrow> True | Some c \<Rightarrow> config_headers c ''Authorization'' = None"
  shows "request_headers (mergeConfig (client (removeAuthToken this)) method url body config)
           ''Authorization'' = None"
  using assms(2) client_state_headers [OF assms(1)]
  by (simp add: mergeConfig_def removeAuthToken_def map_add_def split: option.splits)

lemma verbs_record_request:
  assumes "never_throws_on_data lg"
  shows "authorization_sent (snd (get lg pf (recording respond) this url config w))
           = authorization_sent w
             @ [request_headers (mergeConfig (client this) ''get'' url (config_data_of config)
                  config) ''Authorization'']"
    and "authorization_sent (snd (post lg pf (recording respond) this url body config w))
           = authorization_sent w
             @ [request_headers (mergeConfig (client this) ''post'' url body config)
                  ''Authorization'']"
    and "authorization_sent (snd (put lg pf (recording respond) this url body config w))
           = authorization_sent w
             @ [request_headers (mergeConfig (client this) ''put'' url body config)
                  ''Authorization'']"
    and "authorization_sent (snd (patch lg pf (recording respond) this url body config w))
           = authorization_sent w
             @ [request_headers (mergeConfig (client this) ''patch'' url body config)
                  ''Authorization'']"
    and "authorization_sent (snd (delete lg pf (recording respond) this url config w))
           = authorization_sent w
             @ [request_headers (mergeConfig (client this) ''delete'' url
                  (config_data_of config) config) ''Authorization'']"
  by (simp_all add: authorization_sent_def get_ext [OF assms] post_ext [OF assms]
      put_ext [OF assms] patch_ext [OF assms] delete_ext [OF assms] recording_def)

section \<open>Error classification\<close>

text \<open>
  Claim C1. The shared failure handler \<^verbatim>\<open>handleError\<close> is to return an error of exactly
  one of three kinds, chosen by the stage that failed and never by the message text. With
  the repository's logger it does so for a failure that carries a response (the
  server-error form) and for a failure that carries neither response nor request (the
  request-setup form). For a failure that carries a request and no response it returns the
  no-response form only when the request handle is plain data. When the handle is a
  circular object, as it is under Node, the handler passes it to \<^verbatim>\<open>logger.error\<close>,
  the logger serialises it, and the \<^verbatim>\<open>TypeError\<close> of \<^verbatim>\<open>JSON.stringify\<close> is thrown
  before the handler reaches its \<^verbatim>\<open>return\<close>: no error of the three kinds is produced,
  and the verb method throws the \<^verbatim>\<open>TypeError\<close>.
\<close>

theorem handleError_three_way:
  "(\<forall>r. error_response error = Some r \<longrightarrow>
      (\<exists>err. fst (handleError (logger pf tc) pf error w) = Inr err
         \<and> is_ServerError err \<and> \<not> is_NoResponseError err \<and> \<not> is_RequestSetupError err))
   \<and> (error_response error = None \<and> \<not> truthy_any (error_request error) \<longrightarrow>
      (\<exists>err. fst (handleError (logger pf tc) pf error w) = Inr err
         \<and> is_RequestSetupError err \<and> \<not> is_ServerError err \<and> \<not> is_NoResponseError err))
   \<and> (\<forall>v. error_response error = None \<and> error_request error = Plain v \<and> truthy v \<longrightarrow>
      (\<exists>err. fst (handleError (logger pf tc) pf error w) = Inr err
         \<and> is_NoResponseError err \<and> \<not> is_ServerError err \<and> \<not> is_RequestSetupError err))
   \<and> (error_response error = None \<and> error_request error = Circular \<longrightarrow>
      fst (handleError (logger pf tc) pf error w)
        = Inl (TypeError ''Converting circular structure to JSON'')
      \<and> fst (throw_handleError (logger pf tc) pf error w :: (js_error + ApiResponse) \<times> 's world)
        = Inl (TypeError ''Converting circular structure to JSON''))"
proof (intro conjI allI impI)
  fix r assume "error_response error = Some r"
  then show "\<exists>err. fst (handleError (logger pf tc) pf error w) = Inr err
         \<and> is_ServerError err \<and> \<not> is_NoResponseError err \<and> \<not> is_RequestSetupError err"
    by (simp add: handleError_logger is_ServerError_def is_NoResponseError_def
        is_RequestSetupError_def Error_def)
next
  assume a: "error_response error = None \<and> \<not> truthy_any (error_request error)"
  then obtain v where "error_request error = Plain v" and "\<not> truthy v"
    by (cases "error_request error") simp_all
  with a show "\<exists>err. fst (handleError (logger pf tc) pf error w) = Inr err
         \<and> is_RequestSetupError err \<and> \<not> is_ServerError err \<and> \<not> is_NoResponseError err"
    by (simp add: handleError_logger is_ServerError_def is_NoResponseError_def
        is_RequestSetupError_def Error_def)
next
  fix v assume "error_response error = None \<and> error_request error = Plain v \<and> truthy v"
  then show "\<exists>err. fst (handleError (logger pf tc) pf error w) = Inr err
         \<and> is_NoResponseError err \<and> \<not> is_ServerError err \<and> \<not> is_RequestSetupError err"
    by (simp add: handleError_logger is_ServerError_def is_NoResponseError_def
        is_RequestSetupError_def Error_def)
next
  assume "error_response error = None \<and> error_request error = Circular"
  then show "fst (handleError (logger pf tc) pf error w)
        = Inl (TypeError ''Converting circular structure to JSON'')"
    by (simp add: handleError_logger)
next
  assume "error_response error = None \<and> error_request error = Circular"
  then show "fst (throw_handleError (logger pf tc) pf error w
                :: (js_error + ApiResponse) \<times> 's world)
        = Inl (TypeError ''Converting circular structure to JSON'')"
    by (simp add: throw_handleError_logger)
qed

text \<open>
  The failing input: a request that timed out under Node. The handler throws the
  \<^verbatim>\<open>TypeError\<close>, and so does \<^verbatim>\<open>get\<close> against a server that never answers; the
  error thrown is not of the no-response kind. The same timeout with a request handle that
  is plain data is classified as the claim says.
\<close>

theorem handleError_three_way_witness:
  "error_response failure_no_response = None \<and> error_request failure_no_response = Circular
   \<and> fst (handleError (logger example_platform example_config) example_platform
           failure_no_response world0)
       = Inl (TypeError ''Converting circular structure to JSON'')
   \<and> fst (get (logger example_platform example_config) example_platform server_timeout
           example_client ''/users'' None world0)
       = Inl (TypeError ''Converting circular structure to JSON'')
   \<and> \<not> is_NoResponseError (TypeError ''Converting circular structure to JSON'')
   \<and> fst (handleError (logger example_platform example_config) example_platform
           failure_no_response_plain world0)
       = Inr (Error ''Network Error: No response received'')"
proof -
  have g: "fst (get (logger example_platform example_config) example_platform server_timeout
           example_client ''/users'' None world0)
       = Inl (TypeError ''Converting circular structure to JSON'')"
    by (simp add: get_outcome [OF logger_never_throws_on_data throw_handleError_logger]
        server_timeout_def failure_no_response_def)
  have p: "fst (handleError (logger example_platform example_config) example_platform
           failure_no_response_plain world0)
       = Inr (Error ''Network Error: No response received'')"
    by (simp add: handleError_logger failure_no_response_plain_def failure_no_response_def)
  from handleError_three_way [where error = failure_no_response and pf = example_platform
      and tc = example_config and w = world0]
  show ?thesis
    using g p
    by (simp add: failure_no_response_def is_NoResponseError_def TypeError_def)
qed

section \<open>Response envelopes\<close>

text \<open>
  Claim C2. Whenever the transport resolves with a response, each of the five verb
  methods returns an envelope whose \<open>data\<close>, \<open>status\<close>, \<open>statusText\<close> and \<open>headers\<close>
  are those of the response, unchanged. The value returned is an \<open>ApiResponse\<close>, never
  the \<open>AxiosResponse\<close> itself.
\<close>

theorem verbs_return_envelope:
  "(fst (transport (mergeConfig (client this) ''get'' url (config_data_of config) config) (ext w))
      = Inr r \<longrightarrow>
    fst (get (logger pf tc) pf transport this url config w)
      = Inr \<lparr>data = response_data r, status = response_status r,
             statusText = response_statusText r, headers = response_headers r\<rparr>)
   \<and> (fst (transport (mergeConfig (client this) ''post'' url body config) (ext w)) = Inr r \<longrightarrow>
    fst (post (logger pf tc) pf transport this url body config w)
      = Inr \<lparr>data = response_data r, status = response_status r,
             statusText = response_statusText r, headers = response_headers r\<rparr>)
   \<and> (fst (transport (mergeConfig (client this) ''put'' url body config) (ext w)) = Inr r \<longrightarrow>
    fst (put (logger pf tc) pf transport this url body config w)
      = Inr \<lparr>data = response_data r, status = response_status r,
             statusText = response_statusText r, headers = response_headers r\<rparr>)
   \<and> (fst (transport (mergeConfig (client this) ''patch'' url body config) (ext w)) = Inr r \<longrightarrow>
    fst (patch (logger pf tc) pf transport this url body config w)
      = Inr \<lparr>data = response_data r, status = response_status r,
             statusText = response_statusText r, headers = response_headers r\<rparr>)
   \<and> (fst (transport (mergeConfig (client this) ''delete'' url (config_data_of config) config)
         (ext w)) = Inr r \<longrightarrow>
    fst (delete (logger pf tc) pf transport this url config w)
      = Inr \<lparr>data = response_data r, status = response_status r,
             statusText = response_statusText r, headers = response_headers r\<rparr>)"
  by (simp add: get_outcome [OF logger_never_throws_on_data throw_handleError_logger]
      post_outcome [OF logger_never_throws_on_data throw_handleError_logger]
      put_outcome [OF logger_never_throws_on_data throw_handleError_logger]
      patch_outcome [OF logger_never_throws_on_data throw_handleError_logger]
      delete_outcome [OF logger_never_throws_on_data throw_handleError_logger]
      formatResponse_def)

text \<open>
  A server that answers 200 with an empty object.
\<close>

theorem verbs_return_envelope_witness:
  "fst (server_ok (mergeConfig (client example_client) ''get'' ''/users/999''
          (config_data_of None) None) (ext world0))
     = Inr (example_response 200 ''OK'' (JObj []))
   \<and> fst (get (logger example_platform example_config) example_platform server_ok
           example_client ''/users/999'' None world0)
     = Inr \<lparr>data = JObj [], status = 200, statusText = ''OK'',
            headers = [(''content-type'', ''application/json'')]\<rparr>"
  using verbs_return_envelope [of server_ok example_client "''/users/999''" None world0
      "example_response 200 ''OK'' (JObj [])" example_platform example_config]
  by (simp add: server_ok_def example_response_def)

section \<open>Errors raised for a failure\<close>

text \<open>
  Claim C3, as the code has it. For every failure that carries a response, the error
  \<^verbatim>\<open>handleError\<close> returns, and each verb method throws, is a plain \<^verbatim>\<open>Error\<close> whose
  message is "API Error: ", the status code in decimal, a space, the status text, " - "
  and the serialised body. The error has no \<open>statusCode\<close> property: the status code is
  carried by the message only, as its three decimal digits for every code from 400 to
  599.
\<close>

theorem server_error_message:
  assumes "error_response error = Some r"
  shows "fst (handleError (logger pf tc) pf error w)
           = Inr (Error (''API Error: '' @ Number_toString (response_status r) @ '' ''
                          @ response_statusText r @ '' - ''
                          @ JSON_stringify pf (response_data r)))
         \<and> fst (throw_handleError (logger pf tc) pf error w :: (js_error + ApiResponse) \<times> 's world)
           = Inl (Error (''API Error: '' @ Number_toString (response_status r) @ '' ''
                          @ response_statusText r @ '' - ''
                          @ JSON_stringify pf (response_data r)))
         \<and> error_property
              (Error (''API Error: '' @ Number_toString (response_status r) @ '' ''
                          @ response_statusText r @ '' - ''
                          @ JSON_stringify pf (response_data r))) ''statusCode''
             = Plain JUndefined
         \<and> (400 \<le> response_status r \<and> response_status r \<le> 599 \<longrightarrow>
              Number_toString (response_status r)
                = [''0123456789'' ! nat (response_status r div 100),
                   ''0123456789'' ! nat (response_status r div 10 mod 10),
                   ''0123456789'' ! nat (response_status r mod 10)])"
  using assms
  by (simp add: handleError_logger throw_handleError_logger three_digits
      error_property_def)

text \<open>
  The failure of a request answered by 404 with an empty object.
\<close>

theorem server_error_message_witness:
  "error_response failure_404 = Some (example_response 404 ''Not Found'' (JObj []))
   \<and> fst (handleError (logger example_platform example_config) example_platform failure_404
           world0) = Inr (Error ''API Error: 404 Not Found - {}'')"
  using server_error_message [of failure_404 "example_response 404 ''Not Found'' (JObj [])"
      example_platform example_config world0]
  by (simp add: failure_404_def example_response_def example_platform_def)

text \<open>
  Claim C3 as stated fails: reading \<open>statusCode\<close> on the error raised for a 404
  response gives \<^verbatim>\<open>undefined\<close>, not 404.
\<close>

theorem no_statusCode_field_counterexample:
  "fst (handleError (logger example_platform example_config) example_platform failure_404 world0)
     = Inr (Error ''API Error: 404 Not Found - {}'')
   \<and> error_property (Error ''API Error: 404 Not Found - {}'') ''statusCode''
       \<noteq> Plain (JNum 404)"
  by (simp add: handleError_logger failure_404_def example_response_def
      example_platform_def three_digits error_property_def)

text \<open>
  Claim C4, as the code has it. For every failure that carries neither a request nor a
  response, the error \<^verbatim>\<open>handleError\<close> returns, and each verb method throws, has the
  message "Request Error: " followed by the message of the underlying failure.
\<close>

theorem setup_error_message:
  assumes "error_response error = None" and "\<not> truthy_any (error_request error)"
  shows "fst (handleError (logger pf tc) pf error w)
           = Inr (Error (''Request Error: '' @ error_message error))
         \<and> fst (throw_handleError (logger pf tc) pf error w :: (js_error + ApiResponse) \<times> 's world)
           = Inl (Error (''Request Error: '' @ error_message error))"
proof -
  from assms(2) obtain v where "error_request error = Plain v" and "\<not> truthy v"
    by (cases "error_request error") simp_all
  with assms(1) show ?thesis
    by (simp add: handleError_logger throw_handleError_logger)
qed

text \<open>
  A failure raised before anything was sent.
\<close>

theorem setup_error_message_witness:
  "error_response failure_setup = None \<and> \<not> truthy_any (error_request failure_setup)
   \<and> fst (handleError (logger example_platform example_config) example_platform failure_setup
           world0) = Inr (Error ''Request Error: Invalid URL'')"
  using setup_error_message [of failure_setup example_platform example_config world0]
  by (simp add: failure_setup_def Error_def)

text \<open>
  Claim C4 as stated fails: the message raised is not the failure's message, it is that
  message behind the prefix "Request Error: ".
\<close>

theorem message_prefixed_counterexample:
  "fst (handleError (logger example_platform example_config) example_platform failure_setup
         world0) = Inr (Error ''Request Error: Invalid URL'')
   \<and> error_message (Error ''Request Error: Invalid URL'') \<noteq> error_message failure_setup"
  by (simp add: handleError_logger failure_setup_def Error_def)

section \<open>The retry wrapper\<close>

text \<open>
  Claim C5. For every operation that fails whenever it is invoked, and every
  \<open>maxAttempts = N \<ge> 1\<close>, \<^verbatim>\<open>withRetry\<close> invokes the operation exactly \<open>N\<close> times
  (the trace of invocations grows by \<open>N\<close> entries) and then throws the very failure of
  the last of them, the \<open>N\<close>-th: the object itself, not an error wrapped around it.
\<close>

theorem withRetry_exhausts_attempts:
  assumes "1 \<le> N" and "\<And>v. \<exists>err. fst (operation v) = Inl err"
  shows "\<exists>err tr.
           fst (withRetry (logger pf tc) tc (traced operation) (Some N) delay_arg w)
             = Inl (Some err)
         \<and> snd (ext (snd (withRetry (logger pf tc) tc (traced operation) (Some N) delay_arg w)))
             = snd (ext w) @ tr
         \<and> length tr = nat N \<and> last tr = Inl err"
proof -
  have n: "Suc (nat (N - 1)) = nat N"
    using assms(1) by simp
  from loop_all_fail_traced [where lg = "logger pf tc" and operation = operation and a = 1
      and N = N and d = "case delay_arg of None \<Rightarrow> 1000 | Some d \<Rightarrow> d" and le = None
      and w = w, OF logger_never_throws_on_data assms(2) assms(1) refl]
  show ?thesis
    unfolding withRetry_def Let_def option.case n .
qed

text \<open>
  Three attempts at an operation that always fails: three invocations, and the third
  failure is the one thrown.
\<close>

theorem withRetry_exhausts_attempts_witness:
  "(1::int) \<le> 3
   \<and> (\<exists>err tr.
           fst (withRetry (logger example_platform example_config) example_config
                  (traced (scripted always_failing)) (Some 3) None traced_world0)
             = Inl (Some err)
         \<and> snd (ext (snd (withRetry (logger example_platform example_config) example_config
                  (traced (scripted always_failing)) (Some 3) None traced_world0)))
             = snd (ext traced_world0) @ tr
         \<and> length tr = nat 3 \<and> last tr = Inl err)
   \<and> fst (withRetry (logger example_platform example_config) example_config
                  (traced (scripted always_failing)) (Some 3) None traced_world0)
        = Inl (Some (Error ''failure 3''))
   \<and> snd (ext (snd (withRetry (logger example_platform example_config) example_config
                  (traced (scripted always_failing)) (Some 3) None traced_world0)))
        = [Inl (Error ''failure 1''), Inl (Error ''failure 2''), Inl (Error ''failure 3'')]"
proof -
  have h: "\<And>v. \<exists>err. fst (scripted always_failing v) = Inl err"
    by (simp add: scripted_def always_failing_def)
  from withRetry_exhausts_attempts [where N = 3 and operation = "scripted always_failing"
      and pf = example_platform and tc = example_config and delay_arg = None
      and w = traced_world0, OF _ h]
  show ?thesis
    using always_failing_run by simp
qed

text \<open>
  Claim C6. For an operation that fails on its first \<open>j\<close> invocations and succeeds on
  the next, with \<open>j < maxAttempts\<close>, \<^verbatim>\<open>withRetry\<close> returns the successful result,
  invokes the operation exactly \<open>j + 1\<close> times, and waits \<open>delay \<times> k\<close> milliseconds
  after failed attempt \<open>k\<close>, for \<open>k = 1, \<dots>, j\<close>: linear in the attempt number. When
  every one of \<open>M\<close> attempts fails, the waits are those after attempts \<open>1, \<dots>, M - 1\<close>
  only: none follows the final attempt. The delay defaults to 1000. The scenario of the
  claim is \<open>j = 2\<close>, \<open>maxAttempts = 3\<close>, \<open>delay = 1000\<close>: the waits are 1000 and 2000.
\<close>

theorem withRetry_linear_backoff:
  "((\<forall>k<j. f (ext w + k) = Inl (e k)) \<and> f (ext w + j) = Inr v \<and> int j < N \<longrightarrow>
      fst (withRetry (logger pf tc) tc (scripted f) (Some N) (Some d) w) = Inr v
      \<and> ext (snd (withRetry (logger pf tc) tc (scripted f) (Some N) (Some d) w))
          = ext w + j + 1
      \<and> waited (snd (withRetry (logger pf tc) tc (scripted f) (Some N) (Some d) w))
          = waited w @ map (\<lambda>k. d * k) [1..int j])
   \<and> ((\<forall>k. g k = Inl (e' k)) \<and> 1 \<le> M \<longrightarrow>
      waited (snd (withRetry (logger pf tc) tc (scripted g) (Some M) (Some d) w))
          = waited w @ map (\<lambda>k. d * k) [1..M - 1])
   \<and> withRetry (logger pf tc) tc (scripted f) (Some N) None w
       = withRetry (logger pf tc) tc (scripted f) (Some N) (Some 1000) w"
proof (intro conjI impI)
  assume a: "(\<forall>k<j. f (ext w + k) = Inl (e k)) \<and> f (ext w + j) = Inr v \<and> int j < N"
  then have p1: "\<And>k. k < j \<Longrightarrow> f (ext w + k) = Inl (e k)" and p2: "f (ext w + j) = Inr v"
    and p3: "1 + int j \<le> N" by simp_all
  from loop_fail_then_succeed [where lg = "logger pf tc" and f = f and e = e and j = j
      and v = v and a = 1 and N = N and d = d and le = None and w = w,
      OF logger_never_throws_on_data p1 p2 p3]
  have r: "fst (withRetry_loop (logger pf tc) (scripted f) N d 1 None w) = Inr v"
    "ext (snd (withRetry_loop (logger pf tc) (scripted f) N d 1 None w)) = ext w + j + 1"
    "waited (snd (withRetry_loop (logger pf tc) (scripted f) N d 1 None w))
       = waited w @ map (\<lambda>k. d * k) [1..int j]"
    by simp_all
  show "fst (withRetry (logger pf tc) tc (scripted f) (Some N) (Some d) w) = Inr v"
    by (simp add: withRetry_def r)
  show "ext (snd (withRetry (logger pf tc) tc (scripted f) (Some N) (Some d) w)) = ext w + j + 1"
    by (simp add: withRetry_def r)
  show "waited (snd (withRetry (logger pf tc) tc (scripted f) (Some N) (Some d) w))
          = waited w @ map (\<lambda>k. d * k) [1..int j]"
    by (simp add: withRetry_def r)
next
  assume b: "(\<forall>k. g k = Inl (e' k)) \<and> 1 \<le> M"
  then have q1: "\<And>k. g k = Inl (e' k)" and q2: "1 \<le> M" by simp_all
  from loop_all_fail [where lg = "logger pf tc" and f = g and e = e' and a = 1 and N = M
      and d = d and le = None and w = w, OF logger_never_throws_on_data q1 q2 refl]
  show "waited (snd (withRetry (logger pf tc) tc (scripted g) (Some M) (Some d) w))
          = waited w @ map (\<lambda>k. d * k) [1..M - 1]"
    by (simp add: withRetry_def)
next
  show "withRetry (logger pf tc) tc (scripted f) (Some N) None w
       = withRetry (logger pf tc) tc (scripted f) (Some N) (Some 1000) w"
    by (simp add: withRetry_def)
qed

text \<open>
  The scenario of the claim: two failures, then success, three attempts allowed, delay
  1000; and three failures.
\<close>

theorem withRetry_linear_backoff_witness:
  "fst (withRetry (logger example_platform example_config) example_config (scripted flaky)
          (Some 3) (Some 1000) retry_world0) = Inr (JStr ''done'')
   \<and> ext (snd (withRetry (logger example_platform example_config) example_config
          (scripted flaky) (Some 3) (Some 1000) retry_world0)) = 3
   \<and> waited (snd (withRetry (logger example_platform example_config) example_config
          (scripted flaky) (Some 3) (Some 1000) retry_world0)) = [1000, 2000]
   \<and> waited (snd (withRetry (logger example_platform example_config) example_config
          (scripted always_failing) (Some 3) (Some 1000) retry_world0)) = [1000, 2000]"
proof -
  have u: "[1..2::int] = [1, 2]"
    by (simp add: upto_rec1)
  from withRetry_linear_backoff [where j = 2 and f = flaky and w = retry_world0
      and e = "\<lambda>k. Error (''failure '' @ string_of_nat (Suc k))" and v = "JStr ''done''"
      and N = 3 and pf = example_platform and tc = example_config and d = 1000
      and g = always_failing and e' = "\<lambda>k. Error (''failure '' @ string_of_nat (Suc k))"
      and M = 3]
  show ?thesis
    by (simp add: retry_world0_def flaky_def always_failing_def u)
qed

text \<open>
  Claim C7. When \<open>maxAttempts \<ge> 1\<close> (given, or by default from the configuration),
  \<^verbatim>\<open>withRetry\<close> either returns a value that an invocation of the operation returned,
  or throws a failure that an invocation of the operation threw; it never throws the
  unassigned \<^verbatim>\<open>lastError\<close>.
\<close>

theorem withRetry_outcome_from_operation:
  assumes "1 \<le> (case maxAttempts_arg of None \<Rightarrow> apiRetryAttempts tc | Some n \<Rightarrow> n)"
  shows "case fst (withRetry (logger pf tc) tc operation maxAttempts_arg delay_arg w) of
           Inr v \<Rightarrow> (\<exists>w1. fst (operation w1) = Inr v)
         | Inl None \<Rightarrow> False
         | Inl (Some err) \<Rightarrow> (\<exists>w1. fst (operation w1) = Inl err)"
  using assms
    loop_result_from_operation [where lg = "logger pf tc" and operation = operation
      and N = "case maxAttempts_arg of None \<Rightarrow> apiRetryAttempts tc | Some n \<Rightarrow> n"
      and d = "case delay_arg of None \<Rightarrow> 1000 | Some d \<Rightarrow> d" and a = 1 and le = None
      and w = w, OF logger_never_throws_on_data]
  by (auto simp: withRetry_def Let_def split: sum.splits option.splits)

text \<open>
  The default number of attempts of the example configuration.
\<close>

theorem withRetry_outcome_from_operation_witness:
  "(1::int) \<le> (case None of None \<Rightarrow> apiRetryAttempts example_config | Some n \<Rightarrow> n)
   \<and> (case fst (withRetry (logger example_platform example_config) example_config
                 (scripted flaky) None None retry_world0) of
           Inr v \<Rightarrow> (\<exists>w1. fst (scripted flaky w1) = Inr v)
         | Inl None \<Rightarrow> False
         | Inl (Some err) \<Rightarrow> (\<exists>w1. fst (scripted flaky w1) = Inl err))"
  using withRetry_outcome_from_operation [where maxAttempts_arg = None
      and tc = example_config and pf = example_platform and operation = "scripted flaky"
      and delay_arg = None and w = retry_world0]
  by (simp add: example_config_def)

section \<open>The authorization token\<close>

text \<open>
  Claim C8, as the code has it. On a client built by the constructor and changed by
  its own methods only, a request issued by any of the five verb methods right after
  \<^verbatim>\<open>setAuthToken(token)\<close> is handed to the transport with the Authorization header
  "Bearer " followed by the token, and a request issued right after
  \<^verbatim>\<open>removeAuthToken()\<close> with no Authorization header, provided the options of the call
  itself do not set an Authorization header.
\<close>

theorem auth_token_on_requests:
  assumes "client_state this"
    and "case config of None \<Rightarrow> True | Some c \<Rightarrow> config_headers c ''Authorization'' = None"
  shows "authorization_sent (snd (get (logger pf tc) pf (recording respond)
             (setAuthToken token this) url config w))
           = authorization_sent w @ [Some (''Bearer '' @ token)]
     \<and> authorization_sent (snd (post (logger pf tc) pf (recording respond)
             (setAuthToken token this) url body config w))
           = authorization_sent w @ [Some (''Bearer '' @ token)]
     \<and> authorization_sent (snd (put (logger pf tc) pf (recording respond)
             (setAuthToken token this) url body config w))
           = authorization_sent w @ [Some (''Bearer '' @ token)]
     \<and> authorization_sent (snd (patch (logger pf tc) pf (recording respond)
             (setAuthToken token this) url body config w))
           = authorization_sent w @ [Some (''Bearer '' @ token)]
     \<and> authorization_sent (snd (delete (logger pf tc) pf (recording respond)
             (setAuthToken token this) url config w))
           = authorization_sent w @ [Some (''Bearer '' @ token)]
     \<and> authorization_sent (snd (get (logger pf tc) pf (recording respond)
             (removeAuthToken this) url config w))
           = authorization_sent w @ [None]
     \<and> authorization_sent (snd (post (logger pf tc) pf (recording respond)
             (removeAuthToken this) url body config w))
           = authorization_sent w @ [None]
     \<and> authorization_sent (snd (put (logger pf tc) pf (recording respond)
             (removeAuthToken this) url body config w))
           = authorization_sent w @ [None]
     \<and> authorization_sent (snd (patch (logger pf tc) pf (recording respond)
             (removeAuthToken this) url body config w))
           = authorization_sent w @ [None]
     \<and> authorization_sent (snd (delete (logger pf tc) pf (recording respond)
             (removeAuthToken this) url config w))
           = authorization_sent w @ [None]"
  by (simp only: verbs_record_request [OF logger_never_throws_on_data]
      authorization_after_setAuthToken [OF assms]
      authorization_after_removeAuthToken [OF assms] simp_thms)

text \<open>
  A request without options of its own, after setting and after removing a token.
\<close>

theorem auth_token_on_requests_witness:
  "client_state example_client
   \<and> (case None :: AxiosRequestConfig option of None \<Rightarrow> True
       | Some c \<Rightarrow> config_headers c ''Authorization'' = None)
   \<and> authorization_sent (snd (get (logger example_platform example_config) example_platform
         (recording respond_ok) (setAuthToken ''QpwL5tke4Pnpja7X4'' example_client)
         ''/users/2'' None sent_world0)) = [Some ''Bearer QpwL5tke4Pnpja7X4'']
   \<and> authorization_sent (snd (get (logger example_platform example_config) example_platform
         (recording respond_ok) (removeAuthToken example_client)
         ''/users/2'' None sent_world0)) = [None]"
proof -
  have c: "client_state example_client"
    unfolding example_client_def by (rule client_state.constructed)
  from auth_token_on_requests [where this = example_client and config = None
      and pf = example_platform and tc = example_config and respond = respond_ok
      and token = "''QpwL5tke4Pnpja7X4''" and url = "''/users/2''" and w = sent_world0, OF c]
  show ?thesis
    using c by (simp add: authorization_sent_def sent_world0_def)
qed

text \<open>
  Claim C8 as stated fails: a call whose own options set an Authorization header sends
  that header, whether a token has been set or removed.
\<close>

theorem per_call_authorization_counterexample:
  "authorization_sent (snd (get (logger example_platform example_config) example_platform
      (recording respond_ok) (setAuthToken ''QpwL5tke4Pnpja7X4'' example_client)
      ''/users/2'' (Some config_with_authorization) sent_world0))
     = [Some ''Basic dXNlcjpwdw==''] 
   \<and> authorization_sent (snd (get (logger example_platform example_config) example_platform
      (recording respond_ok) (removeAuthToken example_client)
      ''/users/2'' (Some config_with_authorization) sent_world0))
     = [Some ''Basic dXNlcjpwdw=='']"
proof -
  have e: "authorization_sent sent_world0 = []"
    by (simp add: authorization_sent_def sent_world0_def)
  show ?thesis
    by (simp add: verbs_record_request [OF logger_never_throws_on_data] e mergeConfig_def
        config_with_authorization_def map_add_def)
qed

section \<open>Logging and the outcome of a request\<close>

text \<open>
  Claim C9, as the code has it. For any two logging capabilities none of whose calls
  throws, and the same state of the remote side, each of the five verb methods has the same
  outcome: the same envelope, or the same error.
\<close>

theorem outcome_independent_of_quiet_logger:
  assumes "never_throws lg1" and "never_throws lg2" and "ext w1 = ext w2"
  shows "fst (get lg1 pf transport this url config w1)
           = fst (get lg2 pf transport this url config w2)
     \<and> fst (post lg1 pf transport this url body config w1)
           = fst (post lg2 pf transport this url body config w2)
     \<and> fst (put lg1 pf transport this url body config w1)
           = fst (put lg2 pf transport this url body config w2)
     \<and> fst (patch lg1 pf transport this url body config w1)
           = fst (patch lg2 pf transport this url body config w2)
     \<and> fst (delete lg1 pf transport this url config w1)
           = fst (delete lg2 pf transport this url config w2)"
proof -
  note q1 = never_throws_on_dataI [OF assms(1)] and q2 = never_throws_on_dataI [OF assms(2)]
  note h1 = throw_handleError_returns [OF assms(1)]
    and h2 = throw_handleError_returns [OF assms(2)]
  show ?thesis
    by (simp add: get_outcome [OF q1 h1] get_outcome [OF q2 h2]
        post_outcome [OF q1 h1] post_outcome [OF q2 h2]
        put_outcome [OF q1 h1] put_outcome [OF q2 h2]
        patch_outcome [OF q1 h1] patch_outcome [OF q2 h2]
        delete_outcome [OF q1 h1] delete_outcome [OF q2 h2] assms(3))
qed

text \<open>
  A logger that prints each message against a logger that does nothing, on a request
  answered by 404.
\<close>

theorem outcome_independent_of_quiet_logger_witness:
  "never_throws line_logger \<and> never_throws noop_logger
   \<and> ext world0 = ext world0
   \<and> fst (get line_logger example_platform server_404 example_client ''/users/999'' None
           world0)
       = fst (get noop_logger example_platform server_404 example_client ''/users/999'' None
           world0)"
  using outcome_independent_of_quiet_logger [where
      ?lg1.0 = line_logger and ?lg2.0 = noop_logger
      and ?w1.0 = world0 and ?w2.0 = world0 and pf = example_platform
      and transport = server_404 and this = example_client and url = "''/users/999''"
      and config = None]
  by (simp add: line_never_throws noop_never_throws)

text \<open>
  Claim C9 as stated fails: no logger call is guarded. With a logger that throws, a
  request the server answers with 200 ends in the logger's error; with a logger that does
  nothing, the same request returns the envelope.
\<close>

theorem throwing_logger_counterexample:
  "fst (get throwing_logger example_platform server_ok example_client ''/users/999'' None world0)
     = Inl (Error ''log sink closed'')
   \<and> fst (get noop_logger example_platform server_ok example_client ''/users/999'' None world0)
     = Inr \<lparr>data = JObj [], status = 200, statusText = ''OK'',
            headers = [(''content-type'', ''application/json'')]\<rparr>
   \<and> fst (get throwing_logger example_platform server_ok example_client ''/users/999'' None
          world0)
     \<noteq> fst (get noop_logger example_platform server_ok example_client ''/users/999'' None
          world0)"
  by (simp add: get_def axios_get_def axios_request_def promise_then_def
      request_fulfilled_def response_fulfilled_def response_rejected_def dispatchRequest_def
      throw_handleError_def handleError_def call_logger_def throwing_logger_def
      noop_logger_def server_ok_def example_response_def formatResponse_def Error_def
      Let_def)

section \<open>The base address\<close>

text \<open>
  Claim C10. A client constructed with base address \<open>b\<close> reports \<open>b\<close> (and the
  configured address when none is given); after \<^verbatim>\<open>setBaseURL(u)\<close> it reports \<open>u\<close>,
  also when the token is set or removed afterwards.
\<close>

theorem baseURL_round_trip:
  "getBaseURL (constructor tc (Some b)) = b
   \<and> getBaseURL (constructor tc None) = apiBaseUrl tc
   \<and> getBaseURL (setBaseURL u this) = u
   \<and> getBaseURL (setAuthToken token (setBaseURL u this)) = u
   \<and> getBaseURL (removeAuthToken (setBaseURL u this)) = u"
  by (simp add: getBaseURL_def constructor_def setBaseURL_def setAuthToken_def
      removeAuthToken_def Let_def)

text \<open>
  The example client, before and after a change of base address.
\<close>

theorem baseURL_round_trip_witness:
  "getBaseURL (setBaseURL ''https://httpstat.us/200'' example_client) = ''https://httpstat.us/200''
   \<and> getBaseURL example_client = ''https://reqres.in/api''"
  using baseURL_round_trip [of example_config "''https://reqres.in/api''"
      "''https://httpstat.us/200''" example_client]
  by (simp add: example_client_def)

end
